theory Spec2Isabelle
  imports Complex_Main "HOL-Library.AList" "HOL-Library.Multiset"
begin

text \<open>
  The room synchronization backend of horizon-app: the Room model with its methods and
  its pre-save hook, \<open>RoomService\<close>, the soft validator, and the socket handlers
  (\<open>services/roomService.js\<close>, \<open>sockets/socketHandler.js\<close>, and the validation
  module), as functions on an explicit server state.
\<close>

section \<open>JavaScript values\<close>

text \<open>
  The payloads of the socket events and the Mixed fields of the Room document are JSON
  data. A number is NaN, an infinity or a finite value (a rational here: only NaN-ness
  and the comparison with 0 are looked at, and -0 is not told apart from 0). An object
  is its list of properties in insertion order.
\<close>

datatype jsnum = NaN | NegInf | Fin rat | PosInf

datatype jsval =
    VUndef
  | VNull
  | VBool bool
  | VNum jsnum
  | VStr string
  | VArr "jsval list"
  | VObj "(string \<times> jsval) list"

type_synonym jsobj = "(string \<times> jsval) list"

datatype js_error = TypeError string | ValidationError string | StoreError string | Error string

text \<open>
  \<open>ToNumber\<close> of the language. What the runtime makes of a string, an array or an
  object (parsing the string, or converting to a primitive first) is the parameter
  \<open>tn\<close>; the other cases are those of the language definition.
\<close>

definition ToNumber :: "(jsval \<Rightarrow> jsnum) \<Rightarrow> jsval \<Rightarrow> jsnum" where
  "ToNumber tn v =
     (case v of
        VUndef \<Rightarrow> NaN
      | VNull \<Rightarrow> Fin 0
      | VBool b \<Rightarrow> Fin (if b then 1 else 0)
      | VNum n \<Rightarrow> n
      | _ \<Rightarrow> tn v)"

text \<open>The global \<open>isNaN(v)\<close>.\<close>

definition isNaN :: "(jsval \<Rightarrow> jsnum) \<Rightarrow> jsval \<Rightarrow> bool" where
  "isNaN tn v = (ToNumber tn v = NaN)"

text \<open>\<open>v <= 0\<close>: a numeric comparison, false when \<open>v\<close> converts to NaN.\<close>

definition le_zero :: "(jsval \<Rightarrow> jsnum) \<Rightarrow> jsval \<Rightarrow> bool" where
  "le_zero tn v =
     (case ToNumber tn v of
        NaN \<Rightarrow> False
      | NegInf \<Rightarrow> True
      | Fin q \<Rightarrow> q \<le> 0
      | PosInf \<Rightarrow> False)"

text \<open>Truthiness, as tested by \<open>if (v)\<close>.\<close>

definition truthy :: "jsval \<Rightarrow> bool" where
  "truthy v =
     (case v of
        VUndef \<Rightarrow> False
      | VNull \<Rightarrow> False
      | VBool b \<Rightarrow> b
      | VNum n \<Rightarrow> n \<noteq> NaN \<and> n \<noteq> Fin 0
      | VStr s \<Rightarrow> s \<noteq> []
      | _ \<Rightarrow> True)"

text \<open>\<open>o.k\<close> on an object: \<open>undefined\<close> when the property is absent.\<close>

definition get_prop :: "jsobj \<Rightarrow> string \<Rightarrow> jsval" where
  "get_prop ps k = (case map_of ps k of None \<Rightarrow> VUndef | Some v \<Rightarrow> v)"

text \<open>
  \<open>o.k = v\<close>: an existing property keeps its place, a new one goes to the end.
\<close>

definition set_prop :: "jsobj \<Rightarrow> string \<Rightarrow> jsval \<Rightarrow> jsobj" where
  "set_prop ps k v = AList.update k v ps"

text \<open>
  The spread \<open>{ ...a, ...b }\<close>: the properties of \<open>a\<close>, then those of \<open>b\<close> in
  their order, each overwriting or appended.
\<close>

definition spread :: "jsobj \<Rightarrow> jsobj \<Rightarrow> jsobj" where
  "spread a b = foldl (\<lambda>acc (k, v). set_prop acc k v) a b"

text \<open>
  The expression \<open>typeof z === 'object' ? z.value : z\<close>. \<open>typeof null\<close> is
  \<open>'object'\<close>, and reading a property of \<open>null\<close> throws; an array has no
  property \<open>value\<close>.
\<close>

definition zoom_value :: "jsval \<Rightarrow> js_error + jsval" where
  "zoom_value z =
     (case z of
        VNull \<Rightarrow> Inl (TypeError ''Cannot read properties of null (reading 'value')'')
      | VObj ps \<Rightarrow> Inr (get_prop ps ''value'')
      | VArr _ \<Rightarrow> Inr VUndef
      | _ \<Rightarrow> Inr z)"

text \<open>\<open>(isNaN(c) || c <= 0) ? 1 : c\<close>\<close>

definition safe_zoom :: "(jsval \<Rightarrow> jsnum) \<Rightarrow> jsval \<Rightarrow> jsval" where
  "safe_zoom tn c = (if isNaN tn c \<or> le_zero tn c then VNum (Fin 1) else c)"

text \<open>\<open>if (isNaN(o.k)) o.k = 0\<close>\<close>

definition zero_if_NaN :: "(jsval \<Rightarrow> jsnum) \<Rightarrow> string \<Rightarrow> jsobj \<Rightarrow> jsobj" where
  "zero_if_NaN tn k ps = (if isNaN tn (get_prop ps k) then set_prop ps k (VNum (Fin 0)) else ps)"

section \<open>The Room document\<close>

datatype strfield = Absent | NullS | S string

record user =
  socketId :: string
  username :: strfield
  color :: strfield
  pointer :: jsval
  selectedElementIds :: "string list"
  lastActive :: nat

record room =
  roomId :: string
  elements :: "jsobj list"
  appState :: "jsobj option"
  files :: jsobj
  activeUsers :: "user list"
  version :: int
  lastModified :: nat

text \<open>
  \<open>version\<close> is a Number of the schema, a double, and the versions met here are its
  integer values. \<open>room.version += 1\<close> is the addition of doubles: exact as long as the
  sum has at most 53 bits, and rounded to the nearest double, ties to the even mantissa,
  beyond. From \<open>2^53 = 9007199254740992\<close> on the doubles are two or more apart, so the
  increment is absorbed there (or, on a value with an odd mantissa below \<open>2^54\<close>, rounded
  up to the next double).
\<close>

definition plus_one :: "int \<Rightarrow> int" where
  "plus_one v =
     (if - 9007199254740992 \<le> v \<and> v < 9007199254740992 then v + 1
      else if \<bar>v\<bar> < 18014398509481984
      then (if even (\<bar>v\<bar> div 2) then v else v + 2)
      else v)"

subsection \<open>The pre-save hook\<close>

text \<open>
  \<open>roomSchema.pre('save')\<close>. The zoom is read only when it is truthy, so \<open>null\<close>
  never reaches the property access.
\<close>

definition pre_save_zoom :: "(jsval \<Rightarrow> jsnum) \<Rightarrow> jsobj \<Rightarrow> jsval" where
  "pre_save_zoom tn a =
     (if truthy (get_prop a ''zoom'')
      then (case zoom_value (get_prop a ''zoom'') of
              Inr current \<Rightarrow> safe_zoom tn current
            | Inl _ \<Rightarrow> VNum (Fin 1))
      else VNum (Fin 1))"

definition pre_save_appState :: "(jsval \<Rightarrow> jsnum) \<Rightarrow> jsobj \<Rightarrow> jsobj" where
  "pre_save_appState tn a =
     zero_if_NaN tn ''scrollY''
       (zero_if_NaN tn ''scrollX''
          (set_prop a ''zoom'' (VObj [(''value'', pre_save_zoom tn a)])))"

definition pre_save_element :: "(jsval \<Rightarrow> jsnum) \<Rightarrow> jsobj \<Rightarrow> jsobj" where
  "pre_save_element tn el =
     zero_if_NaN tn ''height''
       (zero_if_NaN tn ''width''
          (zero_if_NaN tn ''y''
             (zero_if_NaN tn ''x'' el)))"

definition pre_save :: "(jsval \<Rightarrow> jsnum) \<Rightarrow> room \<Rightarrow> room" where
  "pre_save tn r =
     r\<lparr> appState := map_option (pre_save_appState tn) (appState r),
        elements := map (pre_save_element tn) (elements r) \<rparr>"


subsection \<open>Equality of values\<close>

text \<open>
  \<open>a === b\<close>, and the SameValueZero comparison of \<open>Array.prototype.includes\<close>, which
  differs from it on NaN only. Objects and arrays are equal when they are the same
  object: a value held by a stored element and a value of an incoming message never are.
\<close>

definition strict_eq :: "jsval \<Rightarrow> jsval \<Rightarrow> bool" where
  "strict_eq a b =
     (case a of
        VUndef \<Rightarrow> b = VUndef
      | VNull \<Rightarrow> b = VNull
      | VBool x \<Rightarrow> b = VBool x
      | VNum x \<Rightarrow> x \<noteq> NaN \<and> b = VNum x
      | VStr x \<Rightarrow> b = VStr x
      | _ \<Rightarrow> False)"

definition same_value_zero :: "jsval \<Rightarrow> jsval \<Rightarrow> bool" where
  "same_value_zero a b = (case a of VNum x \<Rightarrow> b = VNum x | _ \<Rightarrow> strict_eq a b)"

definition js_includes :: "jsval list \<Rightarrow> jsval \<Rightarrow> bool" where
  "js_includes xs v = list_ex (\<lambda>x. same_value_zero x v) xs"

text \<open>\<open>xs.findIndex(P)\<close>: the first index, or none (-1 in the source).\<close>

fun findIndex :: "('a \<Rightarrow> bool) \<Rightarrow> 'a list \<Rightarrow> nat option" where
  "findIndex P [] = None"
| "findIndex P (x # xs) =
     (if P x then Some 0 else map_option Suc (findIndex P xs))"

subsection \<open>Methods of the Room schema\<close>

text \<open>
  The methods of the schema carry the suffix \<open>_m\<close>; the methods of \<open>RoomService\<close> of
  the same names come later under the plain names.
\<close>

record io =
  db_reads :: bool
  db_writes :: bool
  now :: nat
  nanoid :: string

text \<open>
  The fields of \<open>io\<close> are what the outside world answers during one operation:
  whether the reads and the writes of the durable store succeed, the clock, and the
  identifier the generator yields.
\<close>

text \<open>
  A presence entry pushed on \<open>activeUsers\<close> is cast by \<open>userSchema\<close>: the default
  \<open>'Anonymous'\<close> replaces a \<open>username\<close> that is undefined. \<open>color\<close> has no default.
\<close>

definition new_user :: "io \<Rightarrow> string \<Rightarrow> strfield \<Rightarrow> strfield \<Rightarrow> user" where
  "new_user i sid uname col =
     \<lparr> socketId = sid,
       username = (case uname of Absent \<Rightarrow> S ''Anonymous'' | _ \<Rightarrow> uname),
       color = col,
       pointer = VObj [(''x'', VNum (Fin 0)), (''y'', VNum (Fin 0))],
       selectedElementIds = [],
       lastActive = now i \<rparr>"

text \<open>The body of \<open>roomSchema.methods.addUser\<close>, before \<open>this.save()\<close>.\<close>

definition addUser_m :: "io \<Rightarrow> string \<Rightarrow> strfield \<Rightarrow> strfield \<Rightarrow> room \<Rightarrow> room" where
  "addUser_m i sid uname col r =
     (case find (\<lambda>u. socketId u = sid) (activeUsers r) of
        None \<Rightarrow> r\<lparr> activeUsers := activeUsers r @ [new_user i sid uname col] \<rparr>
      | Some _ \<Rightarrow> r)"

text \<open>The body of \<open>roomSchema.methods.removeUser\<close>.\<close>

definition removeUser_m :: "string \<Rightarrow> room \<Rightarrow> room" where
  "removeUser_m sid r =
     r\<lparr> activeUsers := filter (\<lambda>u. socketId u \<noteq> sid) (activeUsers r) \<rparr>"

text \<open>
  \<open>roomSchema.methods.incrementalUpdate\<close>. The schema declares \<open>elements\<close> as an
  array of \<open>Schema.Types.Mixed\<close>: its members are plain objects, as the socket
  payloads and the stored documents give them, not subdocuments (\<open>elementSchema\<close> is
  declared and not used). A plain object of JSON data has no callable \<open>toObject\<close>, so
  the call \<open>this.elements[index].toObject()\<close> throws.
\<close>

record inc_msg =
  added :: "jsobj list option"
  updated :: "jsobj list option"
  deleted :: "jsval list option"

definition toObject :: "jsobj \<Rightarrow> js_error + jsobj" where
  "toObject el = Inl (TypeError ''this.elements[index].toObject is not a function'')"

definition apply_deleted :: "jsval list option \<Rightarrow> jsobj list \<Rightarrow> jsobj list" where
  "apply_deleted d els =
     (case d of
        None \<Rightarrow> els
      | Some ids \<Rightarrow>
          if length ids > 0
          then filter (\<lambda>el. \<not> js_includes ids (get_prop el ''id'')) els
          else els)"

text \<open>
  One step of \<open>updated.forEach\<close>: the elements as the step leaves them, and the
  error when it throws.
\<close>

definition apply_update :: "jsobj list \<Rightarrow> jsobj \<Rightarrow> jsobj list \<times> js_error option" where
  "apply_update els updatedEl =
     (case findIndex (\<lambda>el. strict_eq (get_prop el ''id'') (get_prop updatedEl ''id'')) els of
        None \<Rightarrow> (els, None)
      | Some index \<Rightarrow>
          (case toObject (els ! index) of
             Inl e \<Rightarrow> (els, Some e)
           | Inr obj \<Rightarrow> (els[index := spread obj updatedEl], None)))"

fun forEach_update :: "jsobj list \<Rightarrow> jsobj list \<Rightarrow> jsobj list \<times> js_error option" where
  "forEach_update els [] = (els, None)"
| "forEach_update els (u # us) =
     (case apply_update els u of
        (els', Some e) \<Rightarrow> (els', Some e)
      | (els', None) \<Rightarrow> forEach_update els' us)"

definition apply_updated :: "jsobj list option \<Rightarrow> jsobj list \<Rightarrow> jsobj list \<times> js_error option" where
  "apply_updated u els =
     (case u of
        None \<Rightarrow> (els, None)
      | Some us \<Rightarrow> if length us > 0 then forEach_update els us else (els, None))"

definition apply_added :: "jsobj list option \<Rightarrow> jsobj list \<Rightarrow> jsobj list" where
  "apply_added a els =
     (case a of
        None \<Rightarrow> els
      | Some as \<Rightarrow> if length as > 0 then els @ as else els)"

text \<open>
  The body of the method up to \<open>this.save()\<close>: the document as it is left, and the
  error when the body throws (then the version is not incremented and nothing is saved).
\<close>

definition incrementalUpdate_m :: "io \<Rightarrow> inc_msg \<Rightarrow> room \<Rightarrow> room \<times> js_error option" where
  "incrementalUpdate_m i updates r =
     (case apply_updated (updated updates) (apply_deleted (deleted updates) (elements r)) of
        (els, Some e) \<Rightarrow> (r\<lparr> elements := els \<rparr>, Some e)
      | (els, None) \<Rightarrow>
          (r\<lparr> elements := apply_added (added updates) els,
              version := plus_one (version r),
              lastModified := now i \<rparr>, None))"

subsection \<open>Saving a document\<close>

text \<open>
  \<open>save()\<close> validates the document against the schema before the pre-save hook runs:
  \<open>roomId\<close>, and \<open>socketId\<close> and \<open>color\<close> of every presence entry, are required, and a
  required string is a non-empty string. Then the hook runs, then the document is
  written. The document in memory keeps what the hook did when the write fails. The
  messages of the errors are shortened.
\<close>

definition required_string :: "strfield \<Rightarrow> bool" where
  "required_string f = (case f of S s \<Rightarrow> s \<noteq> [] | _ \<Rightarrow> False)"

definition valid_user :: "user \<Rightarrow> bool" where
  "valid_user u = (socketId u \<noteq> [] \<and> required_string (color u))"

definition valid_room :: "room \<Rightarrow> bool" where
  "valid_room r = (roomId r \<noteq> [] \<and> list_all valid_user (activeUsers r))"

definition save_doc :: "(jsval \<Rightarrow> jsnum) \<Rightarrow> io \<Rightarrow> room \<Rightarrow> room \<times> js_error option" where
  "save_doc tn i r =
     (if \<not> valid_room r then (r, Some (ValidationError ''Room validation failed''))
      else if \<not> db_writes i then (pre_save tn r, Some (StoreError ''write failed''))
      else (pre_save tn r, None))"


text \<open>Sequencing of two steps that may throw: the second runs on what the first returns.\<close>

definition bind_err :: "'e + 'a \<Rightarrow> ('a \<Rightarrow> 'e + 'b) \<Rightarrow> 'e + 'b" where
  "bind_err m f = (case m of Inl err \<Rightarrow> Inl err | Inr x \<Rightarrow> f x)"

section \<open>The server state\<close>

text \<open>
  One record holds what the process and the durable store keep: the map from a
  connection to its room (\<open>socketRoomMap\<close>), the broadcast groups of the transport
  (\<open>joined\<close>), the in-memory cache of the room service (\<open>activeRooms\<close>), the Room
  collection (\<open>db\<close>, keyed by \<open>roomId\<close>), what was emitted (\<open>outbox\<close>) and what was
  written by \<open>console.warn\<close> and \<open>console.error\<close> (\<open>logs\<close>), and the room ids for
  which \<open>removeUser\<close> has set the timer of \<open>cleanupEmptyRoom\<close> and the timer has not
  fired yet (\<open>timers\<close>). The progress messages of \<open>console.log\<close> are left out. The
  distributed cache is off unless the configuration enables it, and it is modelled
  off: \<open>cacheManager.get\<close> gives null and \<open>set\<close> does nothing. Each operation runs to
  its end before the next one starts.
\<close>

record scene_msg =
  m_elements :: "jsobj list"
  m_appState :: "jsobj option"
  m_files :: "jsobj option"

record user_payload =
  p_username :: strfield
  p_color :: strfield

record join_msg =
  j_roomId :: string
  j_user :: "user_payload option"

datatype target = ToSocket string | ToOthers string string

datatype out_event =
    ErrorEv string
  | SceneInit "jsobj list" "jsobj option" jsobj "(string \<times> strfield \<times> strfield) list"
  | SceneUpdateEv scene_msg
  | IncrementalUpdateEv inc_msg
  | PointerUpdateEv string jsval
  | UserJoined string strfield strfield
  | UserLeft string
  | IdleStatus string jsval

record server =
  socketRoomMap :: "string \<rightharpoonup> string"
  joined :: "string \<Rightarrow> string set"
  activeRooms :: "string \<rightharpoonup> room"
  db :: "string \<rightharpoonup> room"
  outbox :: "(target \<times> out_event) list"
  logs :: "string list"
  timers :: "string list"

text \<open>
  \<open>ToSocket s\<close> is \<open>socket.emit\<close> on the connection \<open>s\<close>; \<open>ToOthers r s\<close> is
  \<open>socket.to(r).emit\<close>: every connection of the group \<open>r\<close> but the sender \<open>s\<close>.
\<close>

definition recipients :: "server \<Rightarrow> target \<Rightarrow> string set" where
  "recipients st t =
     (case t of
        ToSocket s \<Rightarrow> {s}
      | ToOthers r s \<Rightarrow> joined st r - {s})"

definition emit :: "target \<Rightarrow> out_event \<Rightarrow> server \<Rightarrow> server" where
  "emit t ev st = st\<lparr> outbox := outbox st @ [(t, ev)] \<rparr>"

definition console :: "string \<Rightarrow> server \<Rightarrow> server" where
  "console line st = st\<lparr> logs := logs st @ [line] \<rparr>"

definition message :: "js_error \<Rightarrow> string" where
  "message e =
     (case e of
        TypeError m \<Rightarrow> m
      | ValidationError m \<Rightarrow> m
      | StoreError m \<Rightarrow> m
      | Error m \<Rightarrow> m)"

text \<open>\<open>catch (error) { console.error(label, error); throw error; }\<close>\<close>

definition log_rethrow :: "string \<Rightarrow> server \<times> (js_error + 'a) \<Rightarrow> server \<times> (js_error + 'a)" where
  "log_rethrow label res =
     (case res of
        (st, Inl e) \<Rightarrow> (console (label @ '' '' @ message e) st, Inl e)
      | (st, Inr v) \<Rightarrow> (st, Inr v))"

section \<open>RoomService\<close>

text \<open>
  A document returned by \<open>getRoom\<close> is the object the in-memory cache holds under the
  same key, so what a method does to it is done to the cache entry, also when the save
  that follows fails. \<open>mutate_and_save\<close> is this pattern: run the method body, then
  \<open>save()\<close>; the write reaches the collection only when nothing failed. The write is
  that of the whole document: \<open>save()\<close> sends the paths marked as modified, which gives
  the same stored document whenever the stored one has been through the hook before.
\<close>

definition mutate_and_save ::
  "(jsval \<Rightarrow> jsnum) \<Rightarrow> io \<Rightarrow> string \<Rightarrow> (room \<Rightarrow> room \<times> js_error option) \<Rightarrow> room \<Rightarrow> server
     \<Rightarrow> server \<times> (js_error + room)" where
  "mutate_and_save tn i rid body r st =
     (case body r of
        (r1, Some e) \<Rightarrow> (st\<lparr> activeRooms := (activeRooms st)(rid \<mapsto> r1) \<rparr>, Inl e)
      | (r1, None) \<Rightarrow>
          (case save_doc tn i r1 of
             (r2, Some e) \<Rightarrow> (st\<lparr> activeRooms := (activeRooms st)(rid \<mapsto> r2) \<rparr>, Inl e)
           | (r2, None) \<Rightarrow>
               (st\<lparr> activeRooms := (activeRooms st)(rid \<mapsto> r2),
                    db := (db st)(roomId r2 \<mapsto> r2) \<rparr>, Inr r2)))"

definition initial_room :: "io \<Rightarrow> string \<Rightarrow> room" where
  "initial_room i rid =
     \<lparr> roomId = rid,
       elements = [],
       appState = Some [(''viewBackgroundColor'', VStr ''#ffffff''),
                        (''scrollX'', VNum (Fin 0)),
                        (''scrollY'', VNum (Fin 0)),
                        (''zoom'', VObj [(''value'', VNum (Fin 1))])],
       files = [],
       activeUsers = [],
       version = 1,
       lastModified = now i \<rparr>"

text \<open>
  \<open>createRoom(roomId = null)\<close>: \<open>roomId || nanoid(10)\<close> also replaces the empty
  string. (Through \<open>getRoom\<close> with the empty id the process then caches one object
  under two keys; the model holds two values there, and what is proved of a room takes
  a non-empty id.)
\<close>

definition createRoom ::
  "(jsval \<Rightarrow> jsnum) \<Rightarrow> io \<Rightarrow> string option \<Rightarrow> server \<Rightarrow> server \<times> (js_error + room)" where
  "createRoom tn i ridopt st =
     log_rethrow ''rrror creating room:''
       (let rid = (case ridopt of None \<Rightarrow> nanoid i | Some x \<Rightarrow> if x = [] then nanoid i else x) in
        if \<not> db_reads i then (st, Inl (StoreError ''read failed''))
        else
          (case db st rid of
             Some existing \<Rightarrow> (st, Inr existing)
           | None \<Rightarrow>
               (case save_doc tn i (initial_room i rid) of
                  (r, Some e) \<Rightarrow> (st, Inl e)
                | (r, None) \<Rightarrow>
                    (st\<lparr> db := (db st)(roomId r \<mapsto> r),
                         activeRooms := (activeRooms st)(rid \<mapsto> r) \<rparr>, Inr r))))"

text \<open>
  \<open>getRoom(roomId, createIfNotExists = true)\<close>: the in-memory cache, then the
  collection, then creation.
\<close>

definition getRoom ::
  "(jsval \<Rightarrow> jsnum) \<Rightarrow> io \<Rightarrow> string \<Rightarrow> bool \<Rightarrow> server \<Rightarrow> server \<times> (js_error + room option)" where
  "getRoom tn i rid createIfNotExists st =
     log_rethrow ''error getting room''
       (case activeRooms st rid of
          Some r \<Rightarrow> (st, Inr (Some r))
        | None \<Rightarrow>
            if \<not> db_reads i then (st, Inl (StoreError ''read failed''))
            else
              (case db st rid of
                 Some r \<Rightarrow> (st\<lparr> activeRooms := (activeRooms st)(rid \<mapsto> r) \<rparr>, Inr (Some r))
               | None \<Rightarrow>
                   if createIfNotExists
                   then
                     (case createRoom tn i (Some rid) st of
                        (st1, Inl e) \<Rightarrow> (st1, Inl e)
                      | (st1, Inr r) \<Rightarrow>
                          (st1\<lparr> activeRooms := (activeRooms st1)(rid \<mapsto> r) \<rparr>, Inr (Some r)))
                   else (st, Inr None)))"

text \<open>
  What the service methods share: \<open>getRoom\<close>, the check \<open>if (!room)\<close> with what it does
  on a missing room, then the work on the document.
\<close>

definition with_room ::
  "(jsval \<Rightarrow> jsnum) \<Rightarrow> io \<Rightarrow> string \<Rightarrow> bool \<Rightarrow> (js_error + room option)
     \<Rightarrow> (room \<Rightarrow> room \<times> js_error option) \<Rightarrow> server \<Rightarrow> server \<times> (js_error + room option)" where
  "with_room tn i rid createIfNotExists missing body st =
     (case getRoom tn i rid createIfNotExists st of
        (st1, Inl e) \<Rightarrow> (st1, Inl e)
      | (st1, Inr None) \<Rightarrow> (st1, missing)
      | (st1, Inr (Some r)) \<Rightarrow>
          (case mutate_and_save tn i rid body r st1 of
             (st2, Inl e) \<Rightarrow> (st2, Inl e)
           | (st2, Inr r2) \<Rightarrow> (st2, Inr (Some r2))))"

definition updateRoomElements_body ::
  "io \<Rightarrow> jsobj list \<Rightarrow> jsobj option \<Rightarrow> jsobj option \<Rightarrow> room \<Rightarrow> room" where
  "updateRoomElements_body i els appS fls r =
     r\<lparr> elements := els,
        appState :=
          (case appS of
             None \<Rightarrow> appState r
           | Some a \<Rightarrow> Some (spread (case appState r of None \<Rightarrow> [] | Some current \<Rightarrow> current) a)),
        files := (case fls of None \<Rightarrow> files r | Some f \<Rightarrow> f),
        version := plus_one (version r),
        lastModified := now i \<rparr>"

definition updateRoomElements ::
  "(jsval \<Rightarrow> jsnum) \<Rightarrow> io \<Rightarrow> string \<Rightarrow> jsobj list \<Rightarrow> jsobj option \<Rightarrow> jsobj option \<Rightarrow> server
     \<Rightarrow> server \<times> (js_error + room option)" where
  "updateRoomElements tn i rid els appS fls st =
     log_rethrow ''Error updating room elements:''
       (with_room tn i rid True (Inl (Error ''Room not found''))
          (\<lambda>r. (updateRoomElements_body i els appS fls r, None)) st)"

definition incrementalUpdate ::
  "(jsval \<Rightarrow> jsnum) \<Rightarrow> io \<Rightarrow> string \<Rightarrow> inc_msg \<Rightarrow> server \<Rightarrow> server \<times> (js_error + room option)" where
  "incrementalUpdate tn i rid updates st =
     log_rethrow ''Error in incremental update:''
       (with_room tn i rid True (Inl (Error ''Room not found''))
          (incrementalUpdate_m i updates) st)"

definition addUser ::
  "(jsval \<Rightarrow> jsnum) \<Rightarrow> io \<Rightarrow> string \<Rightarrow> string \<Rightarrow> strfield \<Rightarrow> strfield \<Rightarrow> server
     \<Rightarrow> server \<times> (js_error + room option)" where
  "addUser tn i rid sid uname col st =
     log_rethrow ''Error adding user:''
       (with_room tn i rid True (Inl (Error ''Room not found''))
          (\<lambda>r. (addUser_m i sid uname col r, None)) st)"

text \<open>
  \<open>removeUser\<close>: when the save went through and the room is left without presence
  entries, \<open>setTimeout\<close> schedules \<open>cleanupEmptyRoom\<close> for this room, one minute later.
\<close>

definition removeUser ::
  "(jsval \<Rightarrow> jsnum) \<Rightarrow> io \<Rightarrow> string \<Rightarrow> string \<Rightarrow> server \<Rightarrow> server \<times> (js_error + room option)" where
  "removeUser tn i rid sid st =
     log_rethrow ''Error removing user:''
       (case with_room tn i rid False (Inr None)
               (\<lambda>r. (removeUser_m sid r, None)) st of
          (st1, Inr (Some r)) \<Rightarrow>
            (if activeUsers r = [] then st1\<lparr> timers := timers st1 @ [rid] \<rparr> else st1,
             Inr (Some r))
        | (st1, res) \<Rightarrow> (st1, res))"

text \<open>
  \<open>cleanupEmptyRoom\<close>, the callback of that timer: the room is fetched as every method
  fetches it, and its entry leaves the in-memory cache when it has no presence entry.
  The collection is not touched. An error is logged and swallowed.
\<close>

definition cleanupEmptyRoom :: "(jsval \<Rightarrow> jsnum) \<Rightarrow> io \<Rightarrow> string \<Rightarrow> server \<Rightarrow> server" where
  "cleanupEmptyRoom tn i rid st =
     (case getRoom tn i rid False st of
        (st1, Inl e) \<Rightarrow> console (''Error cleaning up room: '' @ message e) st1
      | (st1, Inr None) \<Rightarrow> st1
      | (st1, Inr (Some r)) \<Rightarrow>
          if activeUsers r = []
          then st1\<lparr> activeRooms := (activeRooms st1)(rid := None) \<rparr>
          else st1)"

text \<open>The timer fires: it leaves the pending ones and its callback runs.\<close>

definition timer_fires :: "(jsval \<Rightarrow> jsnum) \<Rightarrow> io \<Rightarrow> string \<Rightarrow> server \<Rightarrow> server \<times> bool" where
  "timer_fires tn i rid st =
     (if rid \<in> set (timers st)
      then (cleanupEmptyRoom tn i rid (st\<lparr> timers := remove1 rid (timers st) \<rparr>), True)
      else (st, False))"

text \<open>
  \<open>cleanupInactiveRooms\<close>, which \<open>setInterval\<close> runs every hour: \<open>Room.find\<close> selects the
  stored rooms without presence entries that were last modified more than 24 hours ago
  (the clock counts milliseconds), and the entry of each of them leaves the in-memory
  cache. The collection holds one document for a \<open>roomId\<close>, under this key.
\<close>

definition cleanupInactiveRooms :: "io \<Rightarrow> server \<Rightarrow> server" where
  "cleanupInactiveRooms i st =
     (if \<not> db_reads i
      then console (''Error cleaning up inactive rooms: '' @ ''read failed'') st
      else st\<lparr> activeRooms :=
                 (\<lambda>k. case db st k of
                         None \<Rightarrow> activeRooms st k
                       | Some d \<Rightarrow>
                           if lastModified d < now i - 86400000 \<and> activeUsers d = []
                           then None
                           else activeRooms st k) \<rparr>)"

text \<open>
  \<open>updateUserPointer\<close>: \<open>Room.updateOne\<close> with the positional operator sets the fields
  of the first matching presence entry in the collection, past the hooks; then the
  cached document is patched. An error is logged and swallowed (the result is null).
  \<open>userSchema\<close> declares the two paths \<open>x\<close> and \<open>y\<close> under \<open>pointer\<close>: what an object
  assigned to \<open>pointer\<close> holds besides them is dropped by the cast. The conversion of
  the two values to numbers is not modelled.
\<close>

definition cast_pointer :: "jsval \<Rightarrow> jsval" where
  "cast_pointer p =
     (case p of
        VObj ps \<Rightarrow> VObj (filter (\<lambda>kv. fst kv = ''x'' \<or> fst kv = ''y'') ps)
      | _ \<Rightarrow> p)"

fun update_first :: "('a \<Rightarrow> bool) \<Rightarrow> ('a \<Rightarrow> 'a) \<Rightarrow> 'a list \<Rightarrow> 'a list" where
  "update_first P f [] = []"
| "update_first P f (x # xs) = (if P x then f x # xs else x # update_first P f xs)"

definition set_pointer :: "io \<Rightarrow> string \<Rightarrow> jsval \<Rightarrow> room \<Rightarrow> room" where
  "set_pointer i sid p r =
     r\<lparr> activeUsers :=
          update_first (\<lambda>u. socketId u = sid)
            (\<lambda>u. u\<lparr> pointer := cast_pointer p, lastActive := now i \<rparr>) (activeUsers r) \<rparr>"

definition updateUserPointer :: "io \<Rightarrow> string \<Rightarrow> string \<Rightarrow> jsval \<Rightarrow> server \<Rightarrow> server \<times> bool" where
  "updateUserPointer i rid sid p st =
     (if \<not> db_writes i
      then (console (''Error updating user pointer: '' @ ''write failed'') st, False)
      else
        (st\<lparr> db := (case db st rid of
                       None \<Rightarrow> db st
                     | Some r \<Rightarrow> (db st)(rid \<mapsto> set_pointer i sid p r)),
             activeRooms := (case activeRooms st rid of
                               None \<Rightarrow> activeRooms st
                             | Some r \<Rightarrow> (activeRooms st)(rid \<mapsto> set_pointer i sid p r)) \<rparr>,
         True))"


section \<open>Input validation\<close>

text \<open>
  A Joi schema is what its \<open>validate\<close> method computes: the error, if any, and the
  converted value. \<open>validate\<close> of the repository warns and hands back the data it was
  given when there is an error, and the converted value otherwise.
\<close>

type_synonym 'a schema = "'a \<Rightarrow> string option \<times> 'a"

definition validate :: "'a schema \<Rightarrow> 'a \<Rightarrow> server \<Rightarrow> server \<times> 'a" where
  "validate schema data st =
     (case schema data of
        (Some err, v) \<Rightarrow> (console (''Validation warning (soft): '' @ err) st, data)
      | (None, v) \<Rightarrow> (st, v))"

text \<open>
  \<open>roomIdSchema\<close> on the object \<open>{ roomId }\<close> of a string: 1 to 100 characters.
  \<open>userJoinSchema\<close> on a payload whose \<open>username\<close> and \<open>color\<close> are each a string,
  null or absent: every such payload is accepted, and the schema has no default to add.
\<close>

definition roomIdSchema :: "string schema" where
  "roomIdSchema rid =
     (if length rid < 1 then (Some ''roomId is not allowed to be empty'', rid)
      else if length rid > 100
      then (Some ''roomId length must be less than or equal to 100 characters long'', rid)
      else (None, rid))"

definition userJoinSchema :: "user_payload schema" where
  "userJoinSchema u = (None, u)"

text \<open>
  The other schemas convert and add defaults to whole elements; they are parameters,
  with the conversion of the runtime.
\<close>

record env =
  to_number :: "jsval \<Rightarrow> jsnum"
  sceneUpdateSchema :: "scene_msg schema"
  incrementalUpdateSchema :: "inc_msg schema"
  pointerSchema :: "jsval schema"

section \<open>SocketHandler\<close>

text \<open>\<open>this.socketRoomMap.get(socket.id)\<close> with the test \<open>if (!roomId)\<close>.\<close>

definition current_room :: "server \<Rightarrow> string \<Rightarrow> string option" where
  "current_room st sid =
     (case socketRoomMap st sid of
        None \<Rightarrow> None
      | Some rid \<Rightarrow> if rid = [] then None else Some rid)"

definition handleLeaveRoom :: "env \<Rightarrow> io \<Rightarrow> string \<Rightarrow> server \<Rightarrow> server" where
  "handleLeaveRoom e i sid st =
     (case current_room st sid of
        None \<Rightarrow> st
      | Some rid \<Rightarrow>
          (case removeUser (to_number e) i rid sid st of
             (st1, Inl err) \<Rightarrow> console (''Error leaving room: '' @ message err) st1
           | (st1, Inr _) \<Rightarrow>
               emit (ToOthers rid sid) (UserLeft sid)
                 (st1\<lparr> joined := (joined st1)(rid := joined st1 rid - {sid}),
                       socketRoomMap := (socketRoomMap st1)(sid := None) \<rparr>)))"

definition handleDisconnect :: "env \<Rightarrow> io \<Rightarrow> string \<Rightarrow> server \<Rightarrow> server" where
  "handleDisconnect e i sid st = handleLeaveRoom e i sid st"

text \<open>
  The \<open>join-room\<close> handler. \<open>i_leave\<close> is the outside world during the implied leave,
  \<open>i\<close> during the join itself.
\<close>

definition on_join_room :: "env \<Rightarrow> io \<Rightarrow> io \<Rightarrow> string \<Rightarrow> join_msg \<Rightarrow> server \<Rightarrow> server" where
  "on_join_room e i_leave i sid data st =
     (case validate roomIdSchema (j_roomId data) st of
        (st1, rid) \<Rightarrow>
     (case validate userJoinSchema
             (case j_user data of
                None \<Rightarrow> \<lparr> p_username = Absent, p_color = Absent \<rparr>
              | Some u \<Rightarrow> u) st1 of
        (st2, userData) \<Rightarrow>
     (let st3 = handleLeaveRoom e i_leave sid st2;
          st4 = st3\<lparr> joined := (joined st3)(rid := insert sid (joined st3 rid)),
                     socketRoomMap := (socketRoomMap st3)(sid \<mapsto> rid) \<rparr>
      in case addUser (to_number e) i rid sid (p_username userData) (p_color userData) st4 of
           (st5, Inr (Some r)) \<Rightarrow>
             emit (ToOthers rid sid) (UserJoined sid (p_username userData) (p_color userData))
               (emit (ToSocket sid)
                  (SceneInit (elements r) (appState r) (files r)
                     (map (\<lambda>u. (socketId u, username u, color u)) (activeUsers r)))
                  st5)
         | (st5, Inr None) \<Rightarrow>
             emit (ToSocket sid) (ErrorEv ''Cannot read properties of null'')
               (console ''Error joining room: Cannot read properties of null'' st5)
         | (st5, Inl err) \<Rightarrow>
             emit (ToSocket sid) (ErrorEv (message err))
               (console (''Error joining room: '' @ message err) st5))))"

text \<open>
  The sanitization of the \<open>scene-update\<close> handler. The zoom is read without a test for
  null, so a null zoom throws.
\<close>

definition sanitize_appState :: "(jsval \<Rightarrow> jsnum) \<Rightarrow> jsobj \<Rightarrow> js_error + jsobj" where
  "sanitize_appState tn a =
     (case zoom_value (get_prop a ''zoom'') of
        Inl err \<Rightarrow> Inl err
      | Inr zoomValue \<Rightarrow>
          Inr (zero_if_NaN tn ''scrollY''
                 (zero_if_NaN tn ''scrollX''
                    (set_prop a ''zoom'' (VObj [(''value'', safe_zoom tn zoomValue)])))))"

definition sanitize_scene :: "(jsval \<Rightarrow> jsnum) \<Rightarrow> scene_msg \<Rightarrow> js_error + scene_msg" where
  "sanitize_scene tn validated =
     (case m_appState validated of
        None \<Rightarrow> Inr validated
      | Some a \<Rightarrow>
          (case sanitize_appState tn a of
             Inl err \<Rightarrow> Inl err
           | Inr a' \<Rightarrow> Inr (validated\<lparr> m_appState := Some a' \<rparr>)))"

text \<open>
  The \<open>scene-update\<close> handler: the broadcast, then the update of the store, whose
  failure is caught by \<open>.catch\<close> and logged.
\<close>

definition on_scene_update :: "env \<Rightarrow> io \<Rightarrow> string \<Rightarrow> scene_msg \<Rightarrow> server \<Rightarrow> server" where
  "on_scene_update e i sid data st =
     (case current_room st sid of
        None \<Rightarrow> emit (ToSocket sid) (ErrorEv ''Not in a room'') st
      | Some rid \<Rightarrow>
          (case validate (sceneUpdateSchema e) data st of
             (st1, validated) \<Rightarrow>
          (case sanitize_scene (to_number e) validated of
             Inl err \<Rightarrow>
               emit (ToSocket sid) (ErrorEv (message err))
                 (console (''scene-update error: '' @ message err) st1)
           | Inr v \<Rightarrow>
               (case updateRoomElements (to_number e) i rid (m_elements v) (m_appState v) (m_files v)
                       (emit (ToOthers rid sid) (SceneUpdateEv v) st1) of
                  (st2, Inl err) \<Rightarrow> console (''db save error: '' @ message err) st2
                | (st2, Inr _) \<Rightarrow> st2))))"

text \<open>
  The \<open>incremental-update\<close> handler. The elements of \<open>added\<close> are pushed on the
  document as they are, so the hook that runs in a successful save has sanitized
  them when the delta is relayed.
\<close>

definition on_incremental_update :: "env \<Rightarrow> io \<Rightarrow> string \<Rightarrow> inc_msg \<Rightarrow> server \<Rightarrow> server" where
  "on_incremental_update e i sid data st =
     (case current_room st sid of
        None \<Rightarrow> emit (ToSocket sid) (ErrorEv ''Not in a room'') st
      | Some rid \<Rightarrow>
          (case validate (incrementalUpdateSchema e) data st of
             (st1, validated) \<Rightarrow>
          (case incrementalUpdate (to_number e) i rid validated st1 of
             (st2, Inl err) \<Rightarrow>
               emit (ToSocket sid) (ErrorEv (message err))
                 (console (''Error in incremental update: '' @ message err) st2)
           | (st2, Inr _) \<Rightarrow>
               emit (ToOthers rid sid)
                 (IncrementalUpdateEv
                    (validated\<lparr> added :=
                       map_option (map (pre_save_element (to_number e))) (added validated) \<rparr>))
                 st2)))"

definition on_pointer_update :: "env \<Rightarrow> io \<Rightarrow> string \<Rightarrow> jsval \<Rightarrow> server \<Rightarrow> server" where
  "on_pointer_update e i sid data st =
     (case current_room st sid of
        None \<Rightarrow> st
      | Some rid \<Rightarrow>
          (case validate (pointerSchema e) data st of
             (st1, validated) \<Rightarrow>
          (case updateUserPointer i rid sid validated st1 of
             (st2, _) \<Rightarrow> emit (ToOthers rid sid) (PointerUpdateEv sid validated) st2)))"

definition on_idle_status :: "string \<Rightarrow> jsval \<Rightarrow> server \<Rightarrow> server" where
  "on_idle_status sid idle st =
     (case current_room st sid of
        None \<Rightarrow> st
      | Some rid \<Rightarrow> emit (ToOthers rid sid) (IdleStatus sid idle) st)"


section \<open>Sequences of store operations\<close>

text \<open>
  The operations of the room service on one room, each with what the outside world
  answers while it runs, and the two purges the runtime starts by itself: the timer of
  \<open>removeUser\<close> firing for this room (\<open>CleanupEmptyRoom\<close>, which does nothing while no
  such timer is pending) and the hourly sweep (\<open>CleanupInactiveRooms\<close>). \<open>run_op\<close> gives
  the state after the operation and whether it returned (True) or threw (False; for the
  pointer update, whether it returned true; for the timer, whether one was pending; for
  the sweep, whether the store answered).
  The expiry of a stored document (the index on \<open>createdAt\<close> deletes it seven days after
  its creation) is an act of the database and is not among them: it ends the existence
  of the room.
\<close>

datatype store_op =
    CreateRoom
  | GetRoom bool
  | UpdateElements "jsobj list" "jsobj option" "jsobj option"
  | IncrementalUpdate inc_msg
  | AddUser string strfield strfield
  | RemoveUser string
  | UpdateUserPointer string jsval
  | CleanupEmptyRoom
  | CleanupInactiveRooms

definition returned :: "server \<times> (js_error + 'a) \<Rightarrow> server \<times> bool" where
  "returned res = (case res of (st, Inl _) \<Rightarrow> (st, False) | (st, Inr _) \<Rightarrow> (st, True))"

definition run_op :: "(jsval \<Rightarrow> jsnum) \<Rightarrow> string \<Rightarrow> io \<Rightarrow> store_op \<Rightarrow> server \<Rightarrow> server \<times> bool" where
  "run_op tn rid i op st =
     (case op of
        CreateRoom \<Rightarrow> returned (createRoom tn i (Some rid) st)
      | GetRoom c \<Rightarrow> returned (getRoom tn i rid c st)
      | UpdateElements els appS fls \<Rightarrow> returned (updateRoomElements tn i rid els appS fls st)
      | IncrementalUpdate updates \<Rightarrow> returned (incrementalUpdate tn i rid updates st)
      | AddUser sid uname col \<Rightarrow> returned (addUser tn i rid sid uname col st)
      | RemoveUser sid \<Rightarrow> returned (removeUser tn i rid sid st)
      | UpdateUserPointer sid p \<Rightarrow> updateUserPointer i rid sid p st
      | CleanupEmptyRoom \<Rightarrow> timer_fires tn i rid st
      | CleanupInactiveRooms \<Rightarrow> (cleanupInactiveRooms i st, db_reads i))"




text \<open>
  The version of a room as the service sees it: that of the cached document, and that
  of the stored one when the room is not cached.
\<close>

definition current_version :: "server \<Rightarrow> string \<Rightarrow> int option" where
  "current_version st rid =
     (case activeRooms st rid of
        Some r \<Rightarrow> Some (version r)
      | None \<Rightarrow> map_option version (db st rid))"

text \<open>The number of presence entries a document holds for a connection.\<close>

definition presence :: "string \<Rightarrow> room \<Rightarrow> nat" where
  "presence sid r = length (filter (\<lambda>u. socketId u = sid) (activeUsers r))"

text \<open>A property of every document the server holds, cached or stored.\<close>

definition all_docs :: "(room \<Rightarrow> bool) \<Rightarrow> server \<Rightarrow> bool" where
  "all_docs P st =
     ((\<forall>k r. activeRooms st k = Some r \<longrightarrow> P r) \<and> (\<forall>k r. db st k = Some r \<longrightarrow> P r))"

text \<open>No document holds two presence entries for the connection.\<close>

definition no_duplicate_presence :: "string \<Rightarrow> server \<Rightarrow> bool" where
  "no_duplicate_presence sid st = all_docs (\<lambda>r. presence sid r \<le> 1) st"

section \<open>The scene version of the client\<close>

text \<open>
  Modelled from the spec: \<open>getSceneVersion\<close> is imported by \<open>App.jsx\<close> from the package
  \<open>@excalidraw/excalidraw\<close>, which is not among the sources. The specification gives
  \<open>computeVersion\<close> as a combination, a sum for one, of the revision marker \<open>version\<close> of
  each element that is not deleted.
\<close>

definition element_revision :: "jsobj \<Rightarrow> int" where
  "element_revision el = (case get_prop el ''version'' of VNum (Fin q) \<Rightarrow> \<lfloor>q\<rfloor> | _ \<Rightarrow> 0)"

definition computeVersion :: "jsobj list \<Rightarrow> int" where
  "computeVersion els =
     sum_list (map element_revision (filter (\<lambda>el. \<not> truthy (get_prop el ''isDeleted'')) els))"

text \<open>
  The test of \<open>applyUpdate\<close> in \<open>App.jsx\<close>: an inbound scene is applied, and
  \<open>lastSceneVersion\<close> moved to its version, only when that version is greater.
\<close>

definition applyUpdate :: "int \<Rightarrow> jsobj list \<Rightarrow> int \<times> bool" where
  "applyUpdate lastSceneVersion els =
     (let remoteVersion = computeVersion els in
      if remoteVersion \<le> lastSceneVersion then (lastSceneVersion, False)
      else (remoteVersion, True))"

section \<open>Examples of states and environments\<close>

definition io_ok :: io where
  "io_ok = \<lparr> db_reads = True, db_writes = True, now = 0, nanoid = ''generated'' \<rparr>"

definition io_down :: io where
  "io_down = \<lparr> db_reads = True, db_writes = False, now = 0, nanoid = ''generated'' \<rparr>"

definition server0 :: server where
  "server0 =
     \<lparr> socketRoomMap = Map.empty, joined = (\<lambda>_. {}), activeRooms = Map.empty,
       db = Map.empty, outbox = [], logs = [], timers = [] \<rparr>"

definition env0 :: env where
  "env0 =
     \<lparr> to_number = (\<lambda>_. NaN),
       sceneUpdateSchema = (\<lambda>d. (None, d)),
       incrementalUpdateSchema = (\<lambda>d. (None, d)),
       pointerSchema = (\<lambda>d. (None, d)) \<rparr>"

definition demo_room :: room where
  "demo_room = initial_room io_ok ''demo''"

definition demo_server :: server where
  "demo_server =
     server0\<lparr> socketRoomMap := [''s1'' \<mapsto> ''demo''],
              joined := (\<lambda>_. {})(''demo'' := {''s1'', ''s2''}),
              activeRooms := [''demo'' \<mapsto> demo_room],
              db := [''demo'' \<mapsto> demo_room] \<rparr>"

definition demo_room_e1 :: room where
  "demo_room_e1 = demo_room\<lparr> elements := [[(''id'', VStr ''e1''), (''x'', VNum (Fin 1))]] \<rparr>"



definition demo_server_e1 :: server where
  "demo_server_e1 =
     demo_server\<lparr> activeRooms := [''demo'' \<mapsto> demo_room_e1], db := [''demo'' \<mapsto> demo_room_e1] \<rparr>"

section \<open>Properties of the sanitizer\<close>

lemma get_set_prop: "get_prop (set_prop ps k v) k' = (if k' = k then v else get_prop ps k')"
  by (simp add: get_prop_def set_prop_def update_conv')

lemma get_prop_defined: "get_prop ps k = v \<Longrightarrow> v \<noteq> VUndef \<Longrightarrow> map_of ps k = Some v"
  by (auto simp: get_prop_def split: option.splits)

lemma set_prop_same: "get_prop ps k = v \<Longrightarrow> v \<noteq> VUndef \<Longrightarrow> set_prop ps k v = ps"
  by (simp add: set_prop_def update_triv get_prop_defined)

lemma get_zero_if_NaN:
  "get_prop (zero_if_NaN tn k ps) k' =
     (if k' = k \<and> isNaN tn (get_prop ps k) then VNum (Fin 0) else get_prop ps k')"
  by (simp add: zero_if_NaN_def get_set_prop)

lemma isNaN_zero: "\<not> isNaN tn (VNum (Fin 0))"
  by (simp add: isNaN_def ToNumber_def)

lemma zero_if_NaN_fix: "\<not> isNaN tn (get_prop ps k) \<Longrightarrow> zero_if_NaN tn k ps = ps"
  by (simp add: zero_if_NaN_def)

lemma zero_if_NaN_clean: "\<not> isNaN tn (get_prop (zero_if_NaN tn k ps) k)"
  by (simp add: get_zero_if_NaN isNaN_zero)

lemma zero_if_NaN_keeps_clean:
  "\<not> isNaN tn (get_prop ps k) \<Longrightarrow> \<not> isNaN tn (get_prop (zero_if_NaN tn k' ps) k)"
  by (simp add: get_zero_if_NaN isNaN_zero)

lemma safe_zoom_idem: "safe_zoom tn (safe_zoom tn c) = safe_zoom tn c"
  by (simp add: safe_zoom_def isNaN_def le_zero_def ToNumber_def)

lemma zoom_value_wrapper: "zoom_value (VObj [(''value'', z)]) = Inr z"
  by (simp add: zoom_value_def get_prop_def)

lemma pre_save_element_idem:
  "pre_save_element tn (pre_save_element tn el) = pre_save_element tn el"
  unfolding pre_save_element_def
  by (simp add: zero_if_NaN_fix zero_if_NaN_clean zero_if_NaN_keeps_clean)

lemma get_zoom_pre_save:
  "get_prop (pre_save_appState tn a) ''zoom'' = VObj [(''value'', pre_save_zoom tn a)]"
  by (simp add: pre_save_appState_def get_zero_if_NaN get_set_prop)

lemma pre_save_zoom_fix: "safe_zoom tn (pre_save_zoom tn a) = pre_save_zoom tn a"
  by (simp add: pre_save_zoom_def safe_zoom_idem split: sum.splits)
     (simp add: safe_zoom_def isNaN_def le_zero_def ToNumber_def)

lemma pre_save_zoom_idem: "pre_save_zoom tn (pre_save_appState tn a) = pre_save_zoom tn a"
  by (simp add: pre_save_zoom_def[of tn "pre_save_appState tn a"] get_zoom_pre_save
        truthy_def zoom_value_wrapper pre_save_zoom_fix)

lemma pre_save_appState_idem:
  "pre_save_appState tn (pre_save_appState tn a) = pre_save_appState tn a"
proof -
  let ?a' = "pre_save_appState tn a"
  have z: "set_prop ?a' ''zoom'' (VObj [(''value'', pre_save_zoom tn ?a')]) = ?a'"
    by (rule set_prop_same) (simp_all add: pre_save_zoom_idem get_zoom_pre_save)
  have x: "\<not> isNaN tn (get_prop ?a' ''scrollX'')"
    by (simp add: pre_save_appState_def zero_if_NaN_clean zero_if_NaN_keeps_clean)
  have y: "\<not> isNaN tn (get_prop ?a' ''scrollY'')"
    by (simp add: pre_save_appState_def zero_if_NaN_clean)
  show ?thesis
    by (subst pre_save_appState_def) (simp add: z zero_if_NaN_fix x y)
qed

lemma pre_save_idem: "pre_save tn (pre_save tn r) = pre_save tn r"
  by (simp add: pre_save_def pre_save_appState_idem pre_save_element_idem
        option.map_comp comp_def)

lemma sanitize_appState_idem:
  assumes "sanitize_appState tn a = Inr a'"
  shows "sanitize_appState tn a' = Inr a'"
proof -
  from assms obtain c where c: "zoom_value (get_prop a ''zoom'') = Inr c"
    and a': "a' = zero_if_NaN tn ''scrollY'' (zero_if_NaN tn ''scrollX''
                    (set_prop a ''zoom'' (VObj [(''value'', safe_zoom tn c)])))"
    by (auto simp: sanitize_appState_def split: sum.splits)
  have zoom: "get_prop a' ''zoom'' = VObj [(''value'', safe_zoom tn c)]"
    by (simp add: a' get_zero_if_NaN get_set_prop)
  have z: "set_prop a' ''zoom'' (VObj [(''value'', safe_zoom tn c)]) = a'"
    by (rule set_prop_same) (simp_all add: zoom)
  have x: "\<not> isNaN tn (get_prop a' ''scrollX'')"
    by (simp add: a' zero_if_NaN_clean zero_if_NaN_keeps_clean)
  have y: "\<not> isNaN tn (get_prop a' ''scrollY'')"
    by (simp add: a' zero_if_NaN_clean)
  show ?thesis
    by (simp add: sanitize_appState_def zoom zoom_value_wrapper safe_zoom_idem z
          zero_if_NaN_fix x y)
qed

lemma sanitize_scene_idem:
  assumes "sanitize_scene tn m = Inr m'"
  shows "sanitize_scene tn m' = Inr m'"
proof (cases "m_appState m")
  case None
  with assms show ?thesis by (simp add: sanitize_scene_def)
next
  case (Some a)
  with assms obtain a' where a': "sanitize_appState tn a = Inr a'"
    and m': "m' = m\<lparr> m_appState := Some a' \<rparr>"
    by (auto simp: sanitize_scene_def split: sum.splits)
  from sanitize_appState_idem[OF a'] show ?thesis
    by (simp add: sanitize_scene_def m')
qed

text \<open>
  C5. Sanitization is idempotent: the pre-save hook on an appState, on an element and
  on a whole document, and the sanitization of the scene-update handler on an appState
  and on a whole message, each give on their own result that same result again. For
  the handler, which may throw, the second run is sequenced after the first.
\<close>

theorem sanitize_idempotent:
  "pre_save_appState tn (pre_save_appState tn a) = pre_save_appState tn a
   \<and> pre_save_element tn (pre_save_element tn el) = pre_save_element tn el
   \<and> pre_save tn (pre_save tn r) = pre_save tn r
   \<and> bind_err (sanitize_appState tn a) (sanitize_appState tn) = sanitize_appState tn a
   \<and> bind_err (sanitize_scene tn m) (sanitize_scene tn) = sanitize_scene tn m"
proof -
  have 1: "bind_err (sanitize_appState tn a) (sanitize_appState tn) = sanitize_appState tn a"
    by (cases "sanitize_appState tn a") (simp_all add: bind_err_def sanitize_appState_idem)
  have 2: "bind_err (sanitize_scene tn m) (sanitize_scene tn) = sanitize_scene tn m"
    by (cases "sanitize_scene tn m") (simp_all add: bind_err_def sanitize_scene_idem)
  show ?thesis
    using 1 2 by (simp add: pre_save_appState_idem pre_save_element_idem pre_save_idem)
qed


section \<open>Properties of the store and of the handlers\<close>

lemma isNaN_num: "isNaN tn (VNum n) = (n = NaN)"
  by (simp add: isNaN_def ToNumber_def)

lemma safe_zoom_num:
  "safe_zoom tn (VNum n) = VNum (if n = NaN \<or> le_zero tn (VNum n) then Fin 1 else n)"
  by (simp add: safe_zoom_def isNaN_num)

lemma pre_save_zoom_given:
  assumes "get_prop a ''zoom'' = VNum n \<or> (\<exists>ps. get_prop a ''zoom'' = VObj ps \<and> get_prop ps ''value'' = VNum n)"
  shows "pre_save_zoom tn a = VNum (if n = NaN \<or> le_zero tn (VNum n) then Fin 1 else n)"
  using assms
  by (auto simp: pre_save_zoom_def truthy_def zoom_value_def safe_zoom_num le_zero_def ToNumber_def
      split: jsnum.splits)

lemma sanitize_zoom_given:
  assumes "get_prop a ''zoom'' = VNum n \<or> (\<exists>ps. get_prop a ''zoom'' = VObj ps \<and> get_prop ps ''value'' = VNum n)"
  shows "\<exists>a'. sanitize_appState tn a = Inr a' \<and>
           get_prop a' ''zoom'' = VObj [(''value'', VNum (if n = NaN \<or> le_zero tn (VNum n) then Fin 1 else n))]"
  using assms
  by (auto simp: sanitize_appState_def zoom_value_def safe_zoom_num get_zero_if_NaN get_set_prop)

lemma spread_Nil: "spread a [] = a"
  by (simp add: spread_def)

lemma spread_Cons: "spread a ((k, v) # b) = spread (set_prop a k v) b"
  by (simp add: spread_def)

lemma get_prop_spread:
  "distinct (map fst b) \<Longrightarrow>
   get_prop (spread a b) k = (case map_of b k of Some v \<Rightarrow> v | None \<Rightarrow> get_prop a k)"
proof (induction b arbitrary: a)
  case Nil
  then show ?case by (simp add: spread_Nil)
next
  case (Cons p b)
  obtain k' v' where p: "p = (k', v')" by (cases p)
  from Cons.prems have d: "distinct (map fst b)" and nin: "k' \<notin> fst ` set b"
    by (auto simp: p)
  from nin have none: "map_of b k' = None"
    by (simp add: map_of_eq_None_iff)
  show ?case
    unfolding p spread_Cons
    using Cons.IH[OF d, of "set_prop a k' v'"] none
    by (auto simp: get_set_prop split: option.splits)
qed

lemma distinct_set_prop: "distinct (map fst ps) \<Longrightarrow> distinct (map fst (set_prop ps k v))"
  by (simp add: set_prop_def distinct_update)

lemma distinct_zero_if_NaN: "distinct (map fst ps) \<Longrightarrow> distinct (map fst (zero_if_NaN tn k ps))"
  by (simp add: zero_if_NaN_def distinct_set_prop)

lemma sanitize_distinct:
  "sanitize_appState tn a = Inr a' \<Longrightarrow> distinct (map fst a) \<Longrightarrow> distinct (map fst a')"
  by (auto simp: sanitize_appState_def distinct_zero_if_NaN distinct_set_prop split: sum.splits)


lemma console_fields [simp]:
  "activeRooms (console l st) = activeRooms st" "db (console l st) = db st"
  "socketRoomMap (console l st) = socketRoomMap st" "joined (console l st) = joined st"
  "outbox (console l st) = outbox st" "logs (console l st) = logs st @ [l]"
  by (simp_all add: console_def)

lemma emit_fields [simp]:
  "activeRooms (emit t ev st) = activeRooms st" "db (emit t ev st) = db st"
  "socketRoomMap (emit t ev st) = socketRoomMap st" "joined (emit t ev st) = joined st"
  "outbox (emit t ev st) = outbox st @ [(t, ev)]" "logs (emit t ev st) = logs st"
  by (simp_all add: emit_def)

lemma validate_fields:
  assumes "validate sc d st = (st1, v)"
  shows "activeRooms st1 = activeRooms st" "db st1 = db st"
    "socketRoomMap st1 = socketRoomMap st" "joined st1 = joined st" "outbox st1 = outbox st"
  using assms by (cases "sc d"; auto simp: validate_def split: option.splits)+

lemma current_room_cong:
  "socketRoomMap st' = socketRoomMap st \<Longrightarrow> current_room st' sid = current_room st sid"
  by (simp add: current_room_def)

lemma getRoom_hit:
  "activeRooms st rid = Some r \<Longrightarrow> getRoom tn i rid c st = (st, Inr (Some r))"
  by (simp add: getRoom_def log_rethrow_def)

lemma with_room_hit:
  "activeRooms st rid = Some r \<Longrightarrow>
   with_room tn i rid c missing body st =
     (case mutate_and_save tn i rid body r st of
        (st2, Inl e) \<Rightarrow> (st2, Inl e)
      | (st2, Inr r2) \<Rightarrow> (st2, Inr (Some r2)))"
  by (simp add: with_room_def getRoom_hit)

lemma pre_save_fields [simp]:
  "roomId (pre_save tn r) = roomId r" "activeUsers (pre_save tn r) = activeUsers r"
  "version (pre_save tn r) = version r" "files (pre_save tn r) = files r"
  "lastModified (pre_save tn r) = lastModified r"
  "appState (pre_save tn r) = map_option (pre_save_appState tn) (appState r)"
  "elements (pre_save tn r) = map (pre_save_element tn) (elements r)"
  by (simp_all add: pre_save_def)

lemma save_doc_ok:
  "valid_room r \<Longrightarrow> db_writes i \<Longrightarrow> save_doc tn i r = (pre_save tn r, None)"
  by (simp add: save_doc_def)

lemma body_fields [simp]:
  "roomId (updateRoomElements_body i els appS fls r) = roomId r"
  "activeUsers (updateRoomElements_body i els appS fls r) = activeUsers r"
  "version (updateRoomElements_body i els appS fls r) = plus_one (version r)"
  by (simp_all add: updateRoomElements_body_def)

lemma valid_room_body [simp]:
  "valid_room (updateRoomElements_body i els appS fls r) = valid_room r"
  by (simp add: valid_room_def updateRoomElements_body_def)

lemma on_scene_update_stores_zoom:
  assumes room: "current_room st sid = Some rid"
    and loaded: "activeRooms st rid = Some r" "roomId r = rid" "valid_room r"
    and up: "db_writes i"
    and v: "validate (sceneUpdateSchema e) data st = (st1, v)"
    and a: "m_appState v = Some a" "distinct (map fst a)"
    and zoom: "get_prop a ''zoom'' = VNum n \<or>
               (\<exists>ps. get_prop a ''zoom'' = VObj ps \<and> get_prop ps ''value'' = VNum n)"
  shows "\<exists>r' a'. db (on_scene_update e i sid data st) rid = Some r' \<and>
           elements r' = map (pre_save_element (to_number e)) (m_elements v) \<and>
           appState r' = Some a' \<and>
           get_prop a' ''zoom'' =
             VObj [(''value'', VNum (if n = NaN \<or> le_zero (to_number e) (VNum n) then Fin 1 else n))]"
proof -
  let ?tn = "to_number e"
  let ?n' = "if n = NaN \<or> le_zero ?tn (VNum n) then Fin 1 else n"
  from sanitize_zoom_given[OF zoom, of ?tn] obtain a1 where
    a1: "sanitize_appState ?tn a = Inr a1" and z1: "get_prop a1 ''zoom'' = VObj [(''value'', VNum ?n')]"
    by blast
  have d1: "distinct (map fst a1)" by (rule sanitize_distinct[OF a1 a(2)])
  let ?v' = "v\<lparr> m_appState := Some a1 \<rparr>"
  have san: "sanitize_scene ?tn v = Inr ?v'"
    by (simp add: sanitize_scene_def a a1)
  let ?st1' = "emit (ToOthers rid sid) (SceneUpdateEv ?v') st1"
  have l1: "activeRooms ?st1' rid = Some r"
    using validate_fields(1)[OF v] loaded by simp
  let ?r1 = "updateRoomElements_body i (m_elements v) (Some a1) (m_files v) r"
  let ?r2 = "pre_save ?tn ?r1"
  have m1: "map_of a1 ''zoom'' = Some (VObj [(''value'', VNum ?n')])"
    by (rule get_prop_defined[OF z1]) simp
  have app: "appState ?r1 = Some (spread (case appState r of None \<Rightarrow> [] | Some c \<Rightarrow> c) a1)"
    by (simp add: updateRoomElements_body_def)
  have zoom2: "get_prop (spread (case appState r of None \<Rightarrow> [] | Some c \<Rightarrow> c) a1) ''zoom''
                 = VObj [(''value'', VNum ?n')]"
    by (simp add: get_prop_spread[OF d1] m1)
  have ms: "mutate_and_save ?tn i rid (\<lambda>r. (updateRoomElements_body i (m_elements v) (Some a1) (m_files v) r, None)) r ?st1'
            = (?st1'\<lparr> activeRooms := (activeRooms ?st1')(rid \<mapsto> ?r2), db := (db ?st1')(roomId ?r2 \<mapsto> ?r2) \<rparr>, Inr ?r2)"
    by (simp add: mutate_and_save_def save_doc_ok loaded up)
  have rid2: "roomId r = rid" by (simp add: loaded)
  have upd: "updateRoomElements ?tn i rid (m_elements ?v') (m_appState ?v') (m_files ?v') ?st1'
       = (?st1'\<lparr> activeRooms := (activeRooms ?st1')(rid \<mapsto> ?r2), db := (db ?st1')(roomId ?r2 \<mapsto> ?r2) \<rparr>, Inr (Some ?r2))"
    by (simp add: updateRoomElements_def with_room_hit[OF l1] ms log_rethrow_def)
  have res: "on_scene_update e i sid data st
       = ?st1'\<lparr> activeRooms := (activeRooms ?st1')(rid \<mapsto> ?r2), db := (db ?st1')(roomId ?r2 \<mapsto> ?r2) \<rparr>"
    using upd by (simp add: on_scene_update_def room v san)
  have dbr: "db (on_scene_update e i sid data st) rid = Some ?r2"
    by (simp add: res rid2)
  have z3: "get_prop (pre_save_appState ?tn (spread (case appState r of None \<Rightarrow> [] | Some c \<Rightarrow> c) a1)) ''zoom''
       = VObj [(''value'', VNum ?n')]"
    by (simp add: get_zoom_pre_save pre_save_zoom_def zoom2 truthy_def zoom_value_wrapper
          safe_zoom_num le_zero_def ToNumber_def)
  have els: "elements ?r1 = m_elements v"
    by (simp add: updateRoomElements_body_def)
  show ?thesis
    using dbr app z3 els by simp
qed



text \<open>
  C3. What the pre-save hook enforces on every document that is written. A zoom given
  as a bare number or as a wrapper \<open>{value}\<close> of a number is stored as the wrapper of
  that number, and of 1 when the number is NaN or \<open>\<le> 0\<close>. \<open>scrollX\<close> and \<open>scrollY\<close> of
  the appState, and \<open>x\<close>, \<open>y\<close>, \<open>width\<close> and \<open>height\<close> of an element, are 0 when
  \<open>isNaN\<close> holds of them and are kept otherwise. A save that succeeds has written the
  document as the hook leaves it. And a scene-update with such a zoom (NaN for one),
  received from a connection of a room that is loaded and valid while the store takes
  writes, leaves in the collection a room whose zoom is that wrapper and whose elements
  went through the hook.
\<close>

theorem sanitization_before_persistence:
  "(get_prop a ''zoom'' = VNum n \<or>
      (\<exists>ps. get_prop a ''zoom'' = VObj ps \<and> get_prop ps ''value'' = VNum n)
     \<longrightarrow> get_prop (pre_save_appState tn a) ''zoom'' =
           VObj [(''value'', VNum (if n = NaN \<or> le_zero tn (VNum n) then Fin 1 else n))])
   \<and> (\<forall>k \<in> {''scrollX'', ''scrollY''}.
         get_prop (pre_save_appState tn a) k =
           (if isNaN tn (get_prop a k) then VNum (Fin 0) else get_prop a k))
   \<and> (\<forall>k \<in> {''x'', ''y'', ''width'', ''height''}.
         get_prop (pre_save_element tn el) k =
           (if isNaN tn (get_prop el k) then VNum (Fin 0) else get_prop el k))
   \<and> (save_doc tn i r = (r', None) \<longrightarrow> r' = pre_save tn r)
   \<and> (current_room st sid = Some rid \<and> activeRooms st rid = Some r0 \<and> roomId r0 = rid
        \<and> valid_room r0 \<and> db_writes i
        \<and> validate (sceneUpdateSchema e) data st = (st1, v)
        \<and> m_appState v = Some a0 \<and> distinct (map fst a0)
        \<and> (get_prop a0 ''zoom'' = VNum m \<or>
             (\<exists>ps. get_prop a0 ''zoom'' = VObj ps \<and> get_prop ps ''value'' = VNum m))
       \<longrightarrow> (\<exists>r1 a1. db (on_scene_update e i sid data st) rid = Some r1
              \<and> elements r1 = map (pre_save_element (to_number e)) (m_elements v)
              \<and> appState r1 = Some a1
              \<and> get_prop a1 ''zoom'' =
                    VObj [(''value'',
                           VNum (if m = NaN \<or> le_zero (to_number e) (VNum m) then Fin 1 else m))]))"
proof -
  have zoom: "get_prop a ''zoom'' = VNum n \<or>
      (\<exists>ps. get_prop a ''zoom'' = VObj ps \<and> get_prop ps ''value'' = VNum n)
     \<longrightarrow> get_prop (pre_save_appState tn a) ''zoom'' =
           VObj [(''value'', VNum (if n = NaN \<or> le_zero tn (VNum n) then Fin 1 else n))]"
    using pre_save_zoom_given[of a n tn] by (simp add: get_zoom_pre_save)
  have scroll: "\<forall>k \<in> {''scrollX'', ''scrollY''}.
         get_prop (pre_save_appState tn a) k =
           (if isNaN tn (get_prop a k) then VNum (Fin 0) else get_prop a k)"
    by (simp add: pre_save_appState_def get_zero_if_NaN get_set_prop)
  have geometry: "\<forall>k \<in> {''x'', ''y'', ''width'', ''height''}.
         get_prop (pre_save_element tn el) k =
           (if isNaN tn (get_prop el k) then VNum (Fin 0) else get_prop el k)"
    by (simp add: pre_save_element_def get_zero_if_NaN)
  have saved: "save_doc tn i r = (r', None) \<longrightarrow> r' = pre_save tn r"
    by (auto simp: save_doc_def split: if_splits)
  show ?thesis
    using zoom scroll geometry saved on_scene_update_stores_zoom[of st sid rid r0 i e data st1 v a0 m]
    by blast
qed

theorem sanitization_before_persistence_witness:
  "get_prop [(''zoom'', VNum NaN)] ''zoom'' = VNum NaN
   \<and> get_prop (pre_save_appState (\<lambda>_. NaN) [(''zoom'', VNum NaN)]) ''zoom''
       = VObj [(''value'', VNum (Fin 1))]
   \<and> get_prop (pre_save_appState (\<lambda>_. NaN) [(''zoom'', VNum NaN)]) ''scrollX'' = VNum (Fin 0)
   \<and> get_prop (pre_save_element (\<lambda>_. NaN) [(''id'', VStr ''e1''), (''x'', VNum NaN)]) ''x''
       = VNum (Fin 0)
   \<and> save_doc (\<lambda>_. NaN) io_ok demo_room = (pre_save (\<lambda>_. NaN) demo_room, None)
   \<and> current_room demo_server ''s1'' = Some ''demo''
   \<and> activeRooms demo_server ''demo'' = Some demo_room
   \<and> valid_room demo_room \<and> db_writes io_ok
   \<and> (\<exists>r1 a1.
         db (on_scene_update env0 io_ok ''s1''
               \<lparr> m_elements = [[(''id'', VStr ''e1''), (''x'', VNum NaN)]],
                 m_appState = Some [(''zoom'', VNum NaN)], m_files = None \<rparr>
               demo_server) ''demo'' = Some r1
         \<and> elements r1 = [[(''id'', VStr ''e1''), (''x'', VNum (Fin 0)), (''y'', VNum (Fin 0)),
                            (''width'', VNum (Fin 0)), (''height'', VNum (Fin 0))]]
         \<and> appState r1 = Some a1
         \<and> get_prop a1 ''zoom'' = VObj [(''value'', VNum (Fin 1))])"
proof -
  let ?data = "\<lparr> m_elements = [[(''id'', VStr ''e1''), (''x'', VNum NaN)]],
                 m_appState = Some [(''zoom'', VNum NaN)], m_files = None \<rparr>"
  have h1: "current_room demo_server ''s1'' = Some ''demo''"
    by (simp add: current_room_def demo_server_def server0_def)
  have h2: "activeRooms demo_server ''demo'' = Some demo_room"
    by (simp add: demo_server_def server0_def)
  have h3: "roomId demo_room = ''demo''" "valid_room demo_room" "db_writes io_ok"
    by (simp_all add: demo_room_def initial_room_def valid_room_def io_ok_def)
  have h4: "validate (sceneUpdateSchema env0) ?data demo_server = (demo_server, ?data)"
    by (simp add: validate_def env0_def)
  have h5: "get_prop [(''zoom'', VNum NaN)] ''zoom'' = VNum NaN"
    by (simp add: get_prop_def)
  have h6: "save_doc (\<lambda>_. NaN) io_ok demo_room = (pre_save (\<lambda>_. NaN) demo_room, None)"
    by (simp add: save_doc_def h3)
  have el: "pre_save_element (to_number env0) [(''id'', VStr ''e1''), (''x'', VNum NaN)]
      = [(''id'', VStr ''e1''), (''x'', VNum (Fin 0)), (''y'', VNum (Fin 0)),
         (''width'', VNum (Fin 0)), (''height'', VNum (Fin 0))]"
    by (simp add: pre_save_element_def zero_if_NaN_def get_prop_def set_prop_def isNaN_def
          ToNumber_def env0_def)
  note inst = sanitization_before_persistence[of "[(''zoom'', VNum NaN)]" NaN "\<lambda>_. NaN"
      "[(''id'', VStr ''e1''), (''x'', VNum NaN)]" io_ok demo_room "pre_save (\<lambda>_. NaN) demo_room"
      demo_server "''s1''" "''demo''" demo_room env0 ?data demo_server ?data
      "[(''zoom'', VNum NaN)]" NaN]
  show ?thesis
    using inst h1 h2 h3 h4 h5 h6 el
    by (simp add: isNaN_def ToNumber_def get_prop_def)
qed


text \<open>
  C9. The validator is soft. It is a total function: whatever the schema answers, it
  returns a value and changes nothing but the log. When the schema reports an error
  it logs one warning and returns the data it was given, unchanged; when the schema
  reports none it logs nothing and returns the converted value.
\<close>

theorem validate_soft:
  "(schema data = (Some err, v) \<longrightarrow>
      validate schema data st = (st\<lparr> logs := logs st @ [''Validation warning (soft): '' @ err] \<rparr>, data))
   \<and> (schema data = (None, v) \<longrightarrow> validate schema data st = (st, v))"
  by (simp add: validate_def console_def)

theorem validate_soft_witness:
  "roomIdSchema [] = (Some ''roomId is not allowed to be empty'', [])
   \<and> validate roomIdSchema [] server0
       = (server0\<lparr> logs := [''Validation warning (soft): roomId is not allowed to be empty''] \<rparr>, [])
   \<and> roomIdSchema ''demo'' = (None, ''demo'')
   \<and> validate roomIdSchema ''demo'' server0 = (server0, ''demo'')"
proof -
  have e: "roomIdSchema [] = (Some ''roomId is not allowed to be empty'', [])"
    by (simp add: roomIdSchema_def)
  have d: "roomIdSchema ''demo'' = (None, ''demo'')"
    by (simp add: roomIdSchema_def)
  show ?thesis
    using validate_soft[of roomIdSchema "[]" "''roomId is not allowed to be empty''" "[]" server0]
      validate_soft[of roomIdSchema "''demo''" "''x''" "''demo''" server0] e d
    by (simp add: server0_def)
qed

text \<open>
  C10. A connection that is in no room (it has no entry in \<open>socketRoomMap\<close>): a
  scene-update and an incremental-update are answered with the \<open>error\<close> event
  \<open>Not in a room\<close> to the sender and change nothing else, so no room is touched and
  nothing is broadcast; a pointer-update and an idle-status leave the whole state as it
  was, so there is no event at all.
\<close>

theorem not_in_a_room:
  assumes "socketRoomMap st sid = None"
  shows "on_scene_update e i sid scene st
           = st\<lparr> outbox := outbox st @ [(ToSocket sid, ErrorEv ''Not in a room'')] \<rparr>
         \<and> on_incremental_update e i sid delta st
           = st\<lparr> outbox := outbox st @ [(ToSocket sid, ErrorEv ''Not in a room'')] \<rparr>
         \<and> on_pointer_update e i sid p st = st
         \<and> on_idle_status sid idle st = st"
  using assms
  by (simp add: on_scene_update_def on_incremental_update_def on_pointer_update_def on_idle_status_def
        current_room_def emit_def)

theorem not_in_a_room_witness:
  "socketRoomMap demo_server ''s9'' = None
   \<and> outbox (on_scene_update env0 io_ok ''s9''
               \<lparr> m_elements = [], m_appState = None, m_files = None \<rparr> demo_server)
       = [(ToSocket ''s9'', ErrorEv ''Not in a room'')]
   \<and> activeRooms (on_incremental_update env0 io_ok ''s9''
               \<lparr> added = None, updated = None, deleted = Some [VStr ''e1''] \<rparr> demo_server)
       = activeRooms demo_server
   \<and> on_pointer_update env0 io_ok ''s9'' (VObj [(''x'', VNum (Fin 1)), (''y'', VNum (Fin 2))])
        demo_server = demo_server
   \<and> on_idle_status ''s9'' (VBool True) demo_server = demo_server"
proof -
  have h: "socketRoomMap demo_server ''s9'' = None"
    by (simp add: demo_server_def server0_def)
  have o: "outbox demo_server = []"
    by (simp add: demo_server_def server0_def)
  show ?thesis
    using not_in_a_room[OF h, of env0 io_ok] h o by simp
qed


lemma computeVersion_mset:
  "computeVersion els =
     sum_mset (image_mset element_revision
                 (filter_mset (\<lambda>el. \<not> truthy (get_prop el ''isDeleted'')) (mset els)))"
  by (simp add: computeVersion_def flip: sum_mset_sum_list)

text \<open>
  C6. The scene version does not depend on the order of the elements: two lists with
  the same elements, each as many times, have the same version, and the test of
  \<open>applyUpdate\<close> decides alike on both.
\<close>

theorem computeVersion_order_independent:
  assumes "mset A = mset B"
  shows "computeVersion A = computeVersion B
         \<and> applyUpdate lastSceneVersion A = applyUpdate lastSceneVersion B"
  using assms by (simp add: computeVersion_mset applyUpdate_def)

theorem computeVersion_order_independent_witness:
  "mset [[(''id'', VStr ''a''), (''version'', VNum (Fin 3))],
         [(''id'', VStr ''b''), (''version'', VNum (Fin 4))]]
     = mset [[(''id'', VStr ''b''), (''version'', VNum (Fin 4))],
             [(''id'', VStr ''a''), (''version'', VNum (Fin 3))]]
   \<and> computeVersion [[(''id'', VStr ''a''), (''version'', VNum (Fin 3))],
                      [(''id'', VStr ''b''), (''version'', VNum (Fin 4))]] = 7
   \<and> computeVersion [[(''id'', VStr ''b''), (''version'', VNum (Fin 4))],
                      [(''id'', VStr ''a''), (''version'', VNum (Fin 3))]] = 7"
proof -
  let ?a = "[(''id'', VStr ''a''), (''version'', VNum (Fin 3))]"
  let ?b = "[(''id'', VStr ''b''), (''version'', VNum (Fin 4))]"
  have m: "mset [?a, ?b] = mset [?b, ?a]"
    by (simp add: add.commute)
  have v: "computeVersion [?a, ?b] = 7"
    by (simp add: computeVersion_def element_revision_def get_prop_def truthy_def)
  show ?thesis
    using computeVersion_order_independent[OF m, of 0] m v by simp
qed


subsection \<open>The version of a room\<close>



lemma mutate_and_save_cases:
  obtains (threw) r1 err where "body r = (r1, Some err)"
      "mutate_and_save tn i rid body r st
         = (st\<lparr> activeRooms := (activeRooms st)(rid \<mapsto> r1) \<rparr>, Inl err)"
  | (invalid) r1 where "body r = (r1, None)" "\<not> valid_room r1"
      "mutate_and_save tn i rid body r st
         = (st\<lparr> activeRooms := (activeRooms st)(rid \<mapsto> r1) \<rparr>,
            Inl (ValidationError ''Room validation failed''))"
  | (write_failed) r1 where "body r = (r1, None)" "valid_room r1" "\<not> db_writes i"
      "mutate_and_save tn i rid body r st
         = (st\<lparr> activeRooms := (activeRooms st)(rid \<mapsto> pre_save tn r1) \<rparr>,
            Inl (StoreError ''write failed''))"
  | (saved) r1 where "body r = (r1, None)" "valid_room r1" "db_writes i"
      "mutate_and_save tn i rid body r st
         = (st\<lparr> activeRooms := (activeRooms st)(rid \<mapsto> pre_save tn r1),
                 db := (db st)(roomId r1 \<mapsto> pre_save tn r1) \<rparr>, Inr (pre_save tn r1))"
proof (cases "body r")
  case (Pair r1 res)
  show ?thesis
  proof (cases res)
    case None
    with Pair that(2,3,4)[of r1] show ?thesis
      by (cases "valid_room r1"; cases "db_writes i")
         (simp_all add: mutate_and_save_def save_doc_def)
  next
    case (Some err)
    with Pair that(1)[of r1 err] show ?thesis
      by (simp add: mutate_and_save_def)
  qed
qed



lemma current_version_console [simp]: "current_version (console l st) rid = current_version st rid"
  by (simp add: current_version_def split: option.splits)







lemma plus_one_exact:
  "- 9007199254740992 \<le> v \<Longrightarrow> v < 9007199254740992 \<Longrightarrow> plus_one v = v + 1"
  by (simp add: plus_one_def)

lemma removeUser_timers:
  "\<exists>ts. fst (removeUser tn i rid sid st)
          = (fst (log_rethrow ''Error removing user:''
                    (with_room tn i rid False (Inr None)
                       (\<lambda>r. (removeUser_m sid r, None)) st)))\<lparr> timers := ts \<rparr>
      \<and> snd (removeUser tn i rid sid st)
          = snd (log_rethrow ''Error removing user:''
                   (with_room tn i rid False (Inr None)
                      (\<lambda>r. (removeUser_m sid r, None)) st))"
proof -
  let ?w = "with_room tn i rid False (Inr None) (\<lambda>r. (removeUser_m sid r, None)) st"
  obtain st1 out where w: "?w = (st1, out)" by (cases ?w)
  show ?thesis
  proof (cases out)
    case (Inl e)
    show ?thesis
      by (rule exI[where x = "timers st1"])
         (simp add: removeUser_def w Inl log_rethrow_def console_def)
  next
    case (Inr ro)
    show ?thesis
    proof (cases ro)
      case None
      show ?thesis
        by (rule exI[where x = "timers st1"])
           (simp add: removeUser_def w Inr None log_rethrow_def)
    next
      case (Some r)
      show ?thesis
      proof (cases "activeUsers r = []")
        case True
        show ?thesis
          by (rule exI[where x = "timers st1 @ [rid]"])
             (simp add: removeUser_def w Inr Some True log_rethrow_def)
      next
        case False
        show ?thesis
          by (rule exI[where x = "timers st1"])
             (simp add: removeUser_def w Inr Some False log_rethrow_def)
      qed
    qed
  qed
qed

lemma current_version_timers [simp]:
  "current_version (st\<lparr> timers := ts \<rparr>) rid = current_version st rid"
  by (simp add: current_version_def split: option.splits)





lemmas eval_defs = run_op_def updateRoomElements_def incrementalUpdate_def addUser_def removeUser_def
  with_room_def getRoom_def createRoom_def mutate_and_save_def save_doc_def log_rethrow_def returned_def
  demo_server_def server0_def demo_room_def initial_room_def valid_room_def valid_user_def io_ok_def io_down_def
  updateRoomElements_body_def pre_save_def current_version_def console_def message_def
  addUser_m_def removeUser_m_def new_user_def required_string_def plus_one_def







subsection \<open>Presence\<close>

lemma find_None_filter: "(find P xs = None) = (filter P xs = [])"
  by (induction xs) auto

lemma presence_addUser_m:
  "presence sid (addUser_m i sid uname col r) = (if presence sid r = 0 then 1 else presence sid r)"
proof (cases "find (\<lambda>u. socketId u = sid) (activeUsers r)")
  case None
  then show ?thesis
    using find_None_filter[of "\<lambda>u. socketId u = sid" "activeUsers r"]
    by (simp add: addUser_m_def presence_def new_user_def)
next
  case (Some u)
  then show ?thesis
    using find_None_filter[of "\<lambda>u. socketId u = sid" "activeUsers r"]
    by (simp add: addUser_m_def presence_def)
qed

lemma presence_addUser_m_other:
  "sid' \<noteq> sid \<Longrightarrow> presence sid (addUser_m i sid' uname col r) = presence sid r"
  by (auto simp: addUser_m_def presence_def new_user_def split: option.splits)

lemma presence_removeUser_m: "presence sid (removeUser_m sid r) = 0"
  by (simp add: removeUser_m_def presence_def)

lemma presence_pre_save [simp]: "presence sid (pre_save tn r) = presence sid r"
  by (simp add: presence_def)

lemma presence_initial_room [simp]: "presence sid (initial_room i rid) = 0"
  by (simp add: presence_def initial_room_def)


lemma all_docs_console [simp]: "all_docs P (console l st) = all_docs P st"
  by (simp add: all_docs_def)

lemma all_docs_emit [simp]: "all_docs P (emit t ev st) = all_docs P st"
  by (simp add: all_docs_def)

lemma all_docs_log_rethrow: "all_docs P (fst (log_rethrow l res)) = all_docs P (fst res)"
  by (cases res; cases "snd res"; simp add: log_rethrow_def)

lemma all_docs_mutate_and_save:
  assumes "all_docs P st" and "P r" and "\<And>r. P r \<Longrightarrow> P (fst (body r))"
    and "\<And>r. P r \<Longrightarrow> P (pre_save tn r)"
  shows "all_docs P (fst (mutate_and_save tn i rid body r st))"
  using assms(1) assms(3)[OF assms(2)] assms(4)[OF assms(3)[OF assms(2)]]
  by (cases rule: mutate_and_save_cases[of body r tn i rid st]) (auto simp: all_docs_def)

lemma all_docs_createRoom:
  assumes "all_docs P st" and "\<And>rid. valid_room (initial_room i rid) \<Longrightarrow> P (pre_save tn (initial_room i rid))"
  shows "all_docs P (fst (createRoom tn i ro st))"
    and "\<And>r. snd (createRoom tn i ro st) = Inr r \<Longrightarrow> P r"
  using assms
  by (auto simp: createRoom_def Let_def log_rethrow_def save_doc_def all_docs_def
      split: option.splits if_splits)

lemma all_docs_getRoom:
  assumes "all_docs P st" and "\<And>rid. valid_room (initial_room i rid) \<Longrightarrow> P (pre_save tn (initial_room i rid))"
  shows "all_docs P (fst (getRoom tn i rid c st))"
    and "\<And>r. snd (getRoom tn i rid c st) = Inr (Some r) \<Longrightarrow> P r"
proof -
  note cr = all_docs_createRoom[OF assms, of "Some rid"]
  obtain st1 res1 where c: "createRoom tn i (Some rid) st = (st1, res1)"
    by (cases "createRoom tn i (Some rid) st")
  from cr c have c1: "all_docs P st1" and c2: "\<And>r. res1 = Inr r \<Longrightarrow> P r"
    by auto
  show "all_docs P (fst (getRoom tn i rid c st))"
    using assms(1) c1 c2
    by (auto simp: getRoom_def log_rethrow_def c all_docs_def split: option.splits sum.splits)
  show "\<And>r. snd (getRoom tn i rid c st) = Inr (Some r) \<Longrightarrow> P r"
    using assms(1) c1 c2
    by (auto simp: getRoom_def log_rethrow_def c all_docs_def split: option.splits sum.splits if_splits)
qed

lemma all_docs_with_room:
  assumes "all_docs P st" and "\<And>rid. valid_room (initial_room i rid) \<Longrightarrow> P (pre_save tn (initial_room i rid))"
    and "\<And>r. P r \<Longrightarrow> P (fst (body r))" and "\<And>r. P r \<Longrightarrow> P (pre_save tn r)"
  shows "all_docs P (fst (with_room tn i rid c missing body st))"
proof -
  obtain st1 res1 where g: "getRoom tn i rid c st = (st1, res1)"
    by (cases "getRoom tn i rid c st")
  from all_docs_getRoom[OF assms(1,2), of rid c] g
  have g1: "all_docs P st1" and g2: "\<And>r. res1 = Inr (Some r) \<Longrightarrow> P r" by auto
  show ?thesis
  proof (cases res1)
    case (Inl e)
    then show ?thesis using g1 by (simp add: with_room_def g)
  next
    case (Inr ro)
    show ?thesis
    proof (cases ro)
      case None
      then show ?thesis using g1 Inr by (simp add: with_room_def g)
    next
      case (Some r)
      have pr: "P r" by (rule g2) (simp add: Inr Some)
      have "all_docs P (fst (mutate_and_save tn i rid body r st1))"
        by (rule all_docs_mutate_and_save[where body=body, OF g1 pr]) (fact assms(3), fact assms(4))
      then show ?thesis
        by (cases "mutate_and_save tn i rid body r st1"; cases "snd (mutate_and_save tn i rid body r st1)")
           (auto simp: with_room_def g Inr Some)
    qed
  qed
qed


lemma log_rethrow_fields [simp]:
  "activeRooms (fst (log_rethrow l res)) = activeRooms (fst res)"
  "db (fst (log_rethrow l res)) = db (fst res)"
  "socketRoomMap (fst (log_rethrow l res)) = socketRoomMap (fst res)"
  "joined (fst (log_rethrow l res)) = joined (fst res)"
  "outbox (fst (log_rethrow l res)) = outbox (fst res)"
  "snd (log_rethrow l res) = snd res"
  by (cases res; cases "snd res"; simp add: log_rethrow_def)+

lemma getRoom_loads:
  assumes "db_reads i" "db_writes i" "rid \<noteq> []"
  shows "\<exists>st1 r. getRoom tn i rid True st = (st1, Inr (Some r)) \<and> activeRooms st1 rid = Some r
           \<and> socketRoomMap st1 = socketRoomMap st \<and> joined st1 = joined st \<and> outbox st1 = outbox st"
  using assms
  by (auto simp: getRoom_def createRoom_def log_rethrow_def save_doc_def valid_room_def
        initial_room_def Let_def split: option.splits)

lemma mutate_and_save_cached:
  "\<exists>r'. activeRooms (fst (mutate_and_save tn i rid body r st)) rid = Some r'
      \<and> activeUsers r' = activeUsers (fst (body r))"
  by (cases rule: mutate_and_save_cases[of body r tn i rid st]) auto

lemma addUser_cached:
  assumes io: "db_reads i" "db_writes i" "rid \<noteq> []"
    and inv: "no_duplicate_presence sid st"
  shows "\<exists>r. activeRooms (fst (addUser tn i rid sid uname col st)) rid = Some r \<and> presence sid r = 1"
proof -
  from getRoom_loads[OF io, of tn st] obtain st1 r where
    g: "getRoom tn i rid True st = (st1, Inr (Some r))" and l: "activeRooms st1 rid = Some r"
    by blast
  have P: "presence sid r \<le> 1"
    using all_docs_getRoom(2)[where P="\<lambda>r. presence sid r \<le> 1" and st=st and tn=tn and i=i
        and rid=rid and c=True and r=r] inv g
    by (simp add: no_duplicate_presence_def)
  let ?body = "\<lambda>r. (addUser_m i sid uname col r, None :: js_error option)"
  from mutate_and_save_cached[of tn i rid ?body r st1] obtain r' where
    r': "activeRooms (fst (mutate_and_save tn i rid ?body r st1)) rid = Some r'"
      "activeUsers r' = activeUsers (addUser_m i sid uname col r)"
    by auto
  have "presence sid r' = presence sid (addUser_m i sid uname col r)"
    by (simp add: presence_def r'(2))
  with P have p1: "presence sid r' = 1"
    by (simp add: presence_addUser_m)
  show ?thesis
    using r'(1) p1
    by (cases "mutate_and_save tn i rid ?body r st1"; cases "snd (mutate_and_save tn i rid ?body r st1)")
       (auto simp: addUser_def with_room_def g)
qed

lemma filter_filter_le: "length (filter (\<lambda>x. Q x \<and> P x) xs) \<le> length (filter P xs)"
  by (induction xs) auto

lemma presence_removeUser_m_le: "presence sid (removeUser_m sid' r) \<le> presence sid r"
  by (simp add: presence_def removeUser_m_def filter_filter_le)

lemma presence_addUser_m_le:
  "presence sid r \<le> 1 \<Longrightarrow> presence sid (addUser_m i sid' uname col r) \<le> 1"
  by (cases "sid' = sid") (simp_all add: presence_addUser_m presence_addUser_m_other)

lemma no_duplicate_service:
  assumes "no_duplicate_presence sid st"
  shows "no_duplicate_presence sid (fst (addUser tn i rid sid' uname col st))"
    and "no_duplicate_presence sid (fst (removeUser tn i rid sid' st))"
proof -
  have a: "\<And>r. presence sid r \<le> 1 \<Longrightarrow> presence sid (addUser_m i sid' uname col r) \<le> 1"
    by (rule presence_addUser_m_le)
  have b: "\<And>r. presence sid r \<le> 1 \<Longrightarrow> presence sid (removeUser_m sid' r) \<le> 1"
    using presence_removeUser_m_le[of sid sid'] by (meson le_trans)
  show "no_duplicate_presence sid (fst (addUser tn i rid sid' uname col st))"
    unfolding no_duplicate_presence_def addUser_def all_docs_log_rethrow
    by (rule all_docs_with_room) (use assms a in \<open>simp_all add: no_duplicate_presence_def\<close>)
  let ?w = "log_rethrow ''Error removing user:''
              (with_room tn i rid False (Inr None) (\<lambda>r. (removeUser_m sid' r, None)) st)"
  from removeUser_timers[of tn i rid sid' st] obtain ts where
    t: "fst (removeUser tn i rid sid' st) = (fst ?w)\<lparr> timers := ts \<rparr>" by blast
  have "all_docs (\<lambda>r. presence sid r \<le> 1) (fst ?w)"
    unfolding all_docs_log_rethrow
    by (rule all_docs_with_room) (use assms b in \<open>simp_all add: no_duplicate_presence_def\<close>)
  then show "no_duplicate_presence sid (fst (removeUser tn i rid sid' st))"
    by (simp add: no_duplicate_presence_def t all_docs_def)
qed


lemma all_docs_cong:
  "activeRooms st' = activeRooms st \<Longrightarrow> db st' = db st \<Longrightarrow> all_docs P st' = all_docs P st"
  by (simp add: all_docs_def)

lemma all_docs_validate: "all_docs P (fst (validate sc d st)) = all_docs P st"
  by (cases "validate sc d st") (auto intro!: all_docs_cong dest: validate_fields)

lemma validate_roomId: "snd (validate roomIdSchema rid st) = rid"
  by (simp add: validate_def roomIdSchema_def)

lemma validate_userJoin: "validate userJoinSchema u st = (st, u)"
  by (simp add: validate_def userJoinSchema_def)

lemma no_duplicate_handleLeaveRoom:
  assumes "no_duplicate_presence sid st"
  shows "no_duplicate_presence sid (handleLeaveRoom e i sid' st)"
proof (cases "current_room st sid'")
  case None
  with assms show ?thesis by (simp add: handleLeaveRoom_def)
next
  case (Some rid)
  obtain st1 res where r: "removeUser (to_number e) i rid sid' st = (st1, res)"
    by (cases "removeUser (to_number e) i rid sid' st")
  from no_duplicate_service(2)[OF assms, of "to_number e" i rid sid'] r
  have "no_duplicate_presence sid st1" by simp
  then show ?thesis
    by (cases res) (simp_all add: handleLeaveRoom_def Some r no_duplicate_presence_def all_docs_def)
qed

lemma on_join_room_docs:
  "\<exists>st4. no_duplicate_presence sid' st4 = no_duplicate_presence sid' (handleLeaveRoom e il sid (fst (validate roomIdSchema (j_roomId data) st)))
     \<and> activeRooms (on_join_room e il i sid data st)
        = activeRooms (fst (addUser (to_number e) i (j_roomId data) sid
            (p_username (case j_user data of None \<Rightarrow> \<lparr> p_username = Absent, p_color = Absent \<rparr> | Some u \<Rightarrow> u))
            (p_color (case j_user data of None \<Rightarrow> \<lparr> p_username = Absent, p_color = Absent \<rparr> | Some u \<Rightarrow> u)) st4))
     \<and> db (on_join_room e il i sid data st)
        = db (fst (addUser (to_number e) i (j_roomId data) sid
            (p_username (case j_user data of None \<Rightarrow> \<lparr> p_username = Absent, p_color = Absent \<rparr> | Some u \<Rightarrow> u))
            (p_color (case j_user data of None \<Rightarrow> \<lparr> p_username = Absent, p_color = Absent \<rparr> | Some u \<Rightarrow> u)) st4))"
proof -
  let ?rid = "j_roomId data"
  let ?u = "case j_user data of None \<Rightarrow> \<lparr> p_username = Absent, p_color = Absent \<rparr> | Some u \<Rightarrow> u"
  obtain st1 where v1: "validate roomIdSchema ?rid st = (st1, ?rid)"
    using validate_roomId[of ?rid st] by (cases "validate roomIdSchema ?rid st") auto
  let ?st3 = "handleLeaveRoom e il sid st1"
  let ?st4 = "?st3\<lparr> joined := (joined ?st3)(?rid := insert sid (joined ?st3 ?rid)),
                     socketRoomMap := (socketRoomMap ?st3)(sid \<mapsto> ?rid) \<rparr>"
  have a: "no_duplicate_presence sid' ?st4 = no_duplicate_presence sid' ?st3"
    by (simp add: no_duplicate_presence_def all_docs_def)
  obtain st5 res where ad: "addUser (to_number e) i ?rid sid (p_username ?u) (p_color ?u) ?st4 = (st5, res)"
    by (cases "addUser (to_number e) i ?rid sid (p_username ?u) (p_color ?u) ?st4")
  have "activeRooms (on_join_room e il i sid data st) = activeRooms st5
        \<and> db (on_join_room e il i sid data st) = db st5"
    by (cases res; cases "projr res")
       (simp_all add: on_join_room_def v1 validate_userJoin Let_def ad)
  with a show ?thesis
    using ad v1 by (intro exI[of _ ?st4]) simp
qed

lemma no_duplicate_on_join_room:
  assumes "no_duplicate_presence sid' st"
  shows "no_duplicate_presence sid' (on_join_room e il i sid data st)"
proof -
  from on_join_room_docs[of sid' e il sid data st i] obtain st4 where
    a: "no_duplicate_presence sid' st4 = no_duplicate_presence sid' (handleLeaveRoom e il sid (fst (validate roomIdSchema (j_roomId data) st)))"
    and b: "activeRooms (on_join_room e il i sid data st)
        = activeRooms (fst (addUser (to_number e) i (j_roomId data) sid
            (p_username (case j_user data of None \<Rightarrow> \<lparr> p_username = Absent, p_color = Absent \<rparr> | Some u \<Rightarrow> u))
            (p_color (case j_user data of None \<Rightarrow> \<lparr> p_username = Absent, p_color = Absent \<rparr> | Some u \<Rightarrow> u)) st4))"
    and c: "db (on_join_room e il i sid data st)
        = db (fst (addUser (to_number e) i (j_roomId data) sid
            (p_username (case j_user data of None \<Rightarrow> \<lparr> p_username = Absent, p_color = Absent \<rparr> | Some u \<Rightarrow> u))
            (p_color (case j_user data of None \<Rightarrow> \<lparr> p_username = Absent, p_color = Absent \<rparr> | Some u \<Rightarrow> u)) st4))"
    by blast
  have "no_duplicate_presence sid' (fst (validate roomIdSchema (j_roomId data) st))"
    using assms by (simp add: no_duplicate_presence_def all_docs_validate)
  then have "no_duplicate_presence sid' st4"
    using a no_duplicate_handleLeaveRoom by blast
  from no_duplicate_service(1)[OF this] show ?thesis
    unfolding no_duplicate_presence_def
    using all_docs_cong[OF b c] by blast
qed

lemma on_join_room_exact:
  assumes io: "db_reads i" "db_writes i" "j_roomId data \<noteq> []"
    and inv: "no_duplicate_presence sid st"
  shows "\<exists>r. activeRooms (on_join_room e il i sid data st) (j_roomId data) = Some r \<and> presence sid r = 1"
proof -
  from on_join_room_docs[of sid e il sid data st i] obtain st4 where
    a: "no_duplicate_presence sid st4 = no_duplicate_presence sid (handleLeaveRoom e il sid (fst (validate roomIdSchema (j_roomId data) st)))"
    and b: "activeRooms (on_join_room e il i sid data st)
        = activeRooms (fst (addUser (to_number e) i (j_roomId data) sid
            (p_username (case j_user data of None \<Rightarrow> \<lparr> p_username = Absent, p_color = Absent \<rparr> | Some u \<Rightarrow> u))
            (p_color (case j_user data of None \<Rightarrow> \<lparr> p_username = Absent, p_color = Absent \<rparr> | Some u \<Rightarrow> u)) st4))"
    by blast
  have "no_duplicate_presence sid (fst (validate roomIdSchema (j_roomId data) st))"
    using inv by (simp add: no_duplicate_presence_def all_docs_validate)
  then have "no_duplicate_presence sid st4"
    using a no_duplicate_handleLeaveRoom by blast
  from addUser_cached[OF io this] show ?thesis
    by (simp add: b)
qed


lemma removeUser_m_absent: "presence sid r = 0 \<Longrightarrow> activeUsers (removeUser_m sid r) = activeUsers r"
  by (simp add: presence_def removeUser_m_def filter_empty_conv filter_id_conv)

lemma removeUser_absent:
  assumes "activeRooms st rid = Some r" "presence sid r = 0"
  shows "\<exists>r'. activeRooms (fst (removeUser tn i rid sid st)) rid = Some r' \<and> activeUsers r' = activeUsers r"
proof -
  let ?body = "\<lambda>r. (removeUser_m sid r, None :: js_error option)"
  from mutate_and_save_cached[of tn i rid ?body r st] obtain r' where
    "activeRooms (fst (mutate_and_save tn i rid ?body r st)) rid = Some r'"
    "activeUsers r' = activeUsers (removeUser_m sid r)" by auto
  then show ?thesis
    using removeUser_m_absent[OF assms(2)]
    by (cases "mutate_and_save tn i rid ?body r st"; cases "snd (mutate_and_save tn i rid ?body r st)")
       (auto simp: removeUser_def with_room_hit[OF assms(1)])
qed

lemmas handler_defs = on_join_room_def handleLeaveRoom_def handleDisconnect_def current_room_def
  validate_def roomIdSchema_def userJoinSchema_def emit_def env0_def

text \<open>
  C7. Presence is idempotent for a connection. When no document holds the connection
  twice, two \<open>join-room\<close> events for the same room from the same connection leave it
  so, whatever the store answers; and when the store answers during the second join
  (and the room id is not empty), the cached room holds exactly one presence entry of
  the connection after it. A leave or a disconnect of a connection that is in no room
  changes nothing at all; \<open>removeUser\<close> for a connection that has no entry in the room
  leaves \<open>activeUsers\<close> as it was, in the method and through the service.
\<close>

theorem presence_idempotent:
  "(no_duplicate_presence sid st \<and> j_roomId d1 = rid \<and> j_roomId d2 = rid \<and> rid \<noteq> []
      \<and> db_reads i2 \<and> db_writes i2
     \<longrightarrow> no_duplicate_presence sid (on_join_room e il2 i2 sid d2 (on_join_room e il1 i1 sid d1 st))
         \<and> (\<exists>r. activeRooms (on_join_room e il2 i2 sid d2 (on_join_room e il1 i1 sid d1 st)) rid = Some r
                \<and> presence sid r = 1))
   \<and> (socketRoomMap st sid = None
        \<longrightarrow> handleLeaveRoom e i sid st = st \<and> handleDisconnect e i sid st = st)
   \<and> (presence sid r0 = 0 \<longrightarrow> activeUsers (removeUser_m sid r0) = activeUsers r0)
   \<and> (activeRooms st rid = Some r0 \<and> presence sid r0 = 0
        \<longrightarrow> (\<exists>r'. activeRooms (fst (removeUser tn i rid sid st)) rid = Some r'
                \<and> activeUsers r' = activeUsers r0))"
proof -
  have 1: "no_duplicate_presence sid st \<and> j_roomId d1 = rid \<and> j_roomId d2 = rid \<and> rid \<noteq> []
      \<and> db_reads i2 \<and> db_writes i2
     \<longrightarrow> no_duplicate_presence sid (on_join_room e il2 i2 sid d2 (on_join_room e il1 i1 sid d1 st))
         \<and> (\<exists>r. activeRooms (on_join_room e il2 i2 sid d2 (on_join_room e il1 i1 sid d1 st)) rid = Some r
                \<and> presence sid r = 1)"
  proof (intro impI, elim conjE)
    assume inv: "no_duplicate_presence sid st" and d: "j_roomId d1 = rid" "j_roomId d2 = rid" "rid \<noteq> []"
      and io: "db_reads i2" "db_writes i2"
    let ?st1 = "on_join_room e il1 i1 sid d1 st"
    have inv1: "no_duplicate_presence sid ?st1"
      by (rule no_duplicate_on_join_room[OF inv])
    have inv2: "no_duplicate_presence sid (on_join_room e il2 i2 sid d2 ?st1)"
      by (rule no_duplicate_on_join_room[OF inv1])
    from d have ne: "j_roomId d2 \<noteq> []" by simp
    from on_join_room_exact[OF io ne inv1, of e il2] inv2 d
    show "no_duplicate_presence sid (on_join_room e il2 i2 sid d2 ?st1)
         \<and> (\<exists>r. activeRooms (on_join_room e il2 i2 sid d2 ?st1) rid = Some r \<and> presence sid r = 1)"
      by simp
  qed
  have 2: "socketRoomMap st sid = None
        \<longrightarrow> handleLeaveRoom e i sid st = st \<and> handleDisconnect e i sid st = st"
    by (simp add: handleLeaveRoom_def handleDisconnect_def current_room_def)
  show ?thesis
    using 1 2 removeUser_m_absent[of sid r0] removeUser_absent[of st rid r0 sid tn i]
    by blast
qed

theorem presence_idempotent_witness:
  "no_duplicate_presence ''s1'' server0 \<and> ''demo'' \<noteq> [] \<and> db_reads io_ok \<and> db_writes io_ok
   \<and> map_option (map socketId \<circ> activeUsers)
        (activeRooms
           (on_join_room env0 io_ok io_ok ''s1''
              \<lparr> j_roomId = ''demo'', j_user = Some \<lparr> p_username = S ''ann'', p_color = S ''#ff0000'' \<rparr> \<rparr>
              (on_join_room env0 io_ok io_ok ''s1''
                 \<lparr> j_roomId = ''demo'', j_user = Some \<lparr> p_username = S ''ann'', p_color = S ''#ff0000'' \<rparr> \<rparr>
                 server0)) ''demo'')
       = Some [''s1'']
   \<and> socketRoomMap demo_server ''s9'' = None
   \<and> handleLeaveRoom env0 io_ok ''s9'' demo_server = demo_server
   \<and> activeRooms demo_server ''demo'' = Some demo_room \<and> presence ''s9'' demo_room = 0
   \<and> map_option activeUsers (activeRooms (fst (removeUser (\<lambda>_. NaN) io_ok ''demo'' ''s9'' demo_server)) ''demo'')
       = Some []"
proof -
  let ?d = "\<lparr> j_roomId = ''demo'', j_user = Some \<lparr> p_username = S ''ann'', p_color = S ''#ff0000'' \<rparr> \<rparr>"
  have h1: "no_duplicate_presence ''s1'' server0"
    by (simp add: no_duplicate_presence_def all_docs_def server0_def)
  have h2: "db_reads io_ok" "db_writes io_ok" by (simp_all add: io_ok_def)
  have h3: "socketRoomMap demo_server ''s9'' = None" "activeRooms demo_server ''demo'' = Some demo_room"
    by (simp_all add: demo_server_def server0_def)
  have h4: "presence ''s9'' demo_room = 0"
    by (simp add: presence_def demo_room_def initial_room_def)
  have j: "map_option (map socketId \<circ> activeUsers)
        (activeRooms (on_join_room env0 io_ok io_ok ''s1'' ?d
              (on_join_room env0 io_ok io_ok ''s1'' ?d server0)) ''demo'') = Some [''s1'']"
    by (simp add: handler_defs eval_defs Let_def)
  have u: "activeUsers demo_room = []"
    by (simp add: demo_room_def initial_room_def)
  show ?thesis
    using presence_idempotent[of "''s1''" server0 ?d "''demo''" ?d io_ok env0 io_ok io_ok io_ok io_ok demo_room "\<lambda>_. NaN"]
      presence_idempotent[of "''s9''" demo_server ?d "''demo''" ?d io_ok env0 io_ok io_ok io_ok io_ok demo_room "\<lambda>_. NaN"]
      h1 h2 h3 h4 j u
    by auto
qed



subsection \<open>Joining\<close>

lemma valid_room_pre_save [simp]: "valid_room (pre_save tn r) = valid_room r"
  by (simp add: valid_room_def)

lemma addUser_m_fresh:
  "presence sid r = 0 \<Longrightarrow>
   addUser_m i sid uname col r = r\<lparr> activeUsers := activeUsers r @ [new_user i sid uname col] \<rparr>"
  using find_None_filter[of "\<lambda>u. socketId u = sid" "activeUsers r"]
  by (simp add: addUser_m_def presence_def)

lemma valid_new_user: "valid_user (new_user i sid uname col) = (sid \<noteq> [] \<and> required_string col)"
  by (simp add: valid_user_def new_user_def)

lemma addUser_fresh:
  assumes io: "db_reads i" "db_writes i" "rid \<noteq> []"
    and inv: "all_docs (\<lambda>r. valid_room r \<and> presence sid r = 0) st"
    and sid: "sid \<noteq> []"
  shows "\<exists>st1 r. all_docs (\<lambda>r. valid_room r \<and> presence sid r = 0) st1
           \<and> outbox st1 = outbox st \<and> valid_room r \<and> presence sid r = 0
           \<and> addUser tn i rid sid uname col st =
               (if required_string col
                then (st1\<lparr> activeRooms := (activeRooms st1)(rid \<mapsto> pre_save tn (addUser_m i sid uname col r)),
                           db := (db st1)(roomId r \<mapsto> pre_save tn (addUser_m i sid uname col r)) \<rparr>,
                      Inr (Some (pre_save tn (addUser_m i sid uname col r))))
                else (console ''Error adding user: Room validation failed''
                        (st1\<lparr> activeRooms := (activeRooms st1)(rid \<mapsto> addUser_m i sid uname col r) \<rparr>),
                      Inl (ValidationError ''Room validation failed'')))"
proof -
  let ?P = "\<lambda>r. valid_room r \<and> presence sid r = 0"
  from getRoom_loads[OF io, of tn st] obtain st1 r where
    g: "getRoom tn i rid True st = (st1, Inr (Some r))" and l: "activeRooms st1 rid = Some r"
    and o: "outbox st1 = outbox st"
    by blast
  have inv1: "all_docs ?P st1"
    using all_docs_getRoom(1)[where P="?P" and st=st and tn=tn and i=i and rid=rid and c=True] inv g
    by simp
  have P: "?P r"
    using all_docs_getRoom(2)[where P="?P" and st=st and tn=tn and i=i and rid=rid and c=True and r=r] inv g
    by simp
  let ?r1 = "addUser_m i sid uname col r"
  have r1: "?r1 = r\<lparr> activeUsers := activeUsers r @ [new_user i sid uname col] \<rparr>"
    using P by (simp add: addUser_m_fresh)
  have v: "valid_room ?r1 = required_string col"
    using P sid by (simp add: r1 valid_room_def valid_new_user)
  have rid1: "roomId ?r1 = roomId r" by (simp add: r1)
  have "addUser tn i rid sid uname col st =
               (if required_string col
                then (st1\<lparr> activeRooms := (activeRooms st1)(rid \<mapsto> pre_save tn ?r1),
                           db := (db st1)(roomId r \<mapsto> pre_save tn ?r1) \<rparr>,
                      Inr (Some (pre_save tn ?r1)))
                else (console ''Error adding user: Room validation failed''
                        (st1\<lparr> activeRooms := (activeRooms st1)(rid \<mapsto> ?r1) \<rparr>),
                      Inl (ValidationError ''Room validation failed'')))"
    using v io(2)
    by (simp add: addUser_def with_room_def g mutate_and_save_def save_doc_def log_rethrow_def
          message_def rid1)
  with inv1 o P show ?thesis by blast
qed


lemma validate_roomId_ok:
  "1 \<le> length rid \<Longrightarrow> length rid \<le> 100 \<Longrightarrow> validate roomIdSchema rid st = (st, rid)"
  by (cases rid) (simp_all add: validate_def roomIdSchema_def)

lemma all_docs_joined [simp]:
  "all_docs P (st\<lparr> joined := j, socketRoomMap := m \<rparr>) = all_docs P st"
  by (simp add: all_docs_def)

lemmas sanitizer_defs = pre_save_appState_def pre_save_element_def pre_save_zoom_def zero_if_NaN_def
  get_prop_def set_prop_def truthy_def zoom_value_def safe_zoom_def isNaN_def le_zero_def ToNumber_def

text \<open>
  C8, as the code has it. The server has a default for a missing username only, and
  none for the color. Take a connection with a non-empty id that is in no room, a room
  id of 1 to 100 characters, a store that answers, and documents that are valid and
  hold no entry of the connection. When the payload carries a non-empty color, the
  join leaves one presence entry of the connection in the room, cached and stored, with
  the username \<open>Anonymous\<close> when the payload has none (an empty or null username is
  kept as given), and it is answered with \<open>scene-init\<close> and announced with
  \<open>user-joined\<close>. When the color is missing, null or empty, the save is refused by
  the schema: the sender gets one \<open>error\<close> event and no stored document holds an entry
  of the connection.
\<close>

theorem join_defaults:
  assumes fresh: "socketRoomMap st sid = None" and sid: "sid \<noteq> []"
    and rid: "j_roomId data = rid" "1 \<le> length rid" "length rid \<le> 100"
    and user: "(case j_user data of
                  None \<Rightarrow> \<lparr> p_username = Absent, p_color = Absent \<rparr>
                | Some u \<Rightarrow> u) = \<lparr> p_username = uname, p_color = col \<rparr>"
    and io: "db_reads i" "db_writes i"
    and inv: "all_docs (\<lambda>r. valid_room r \<and> presence sid r = 0) st"
  shows "(let st' = on_join_room e il i sid data st
          in if required_string col
             then (\<exists>r. activeRooms st' rid = Some r \<and> db st' (roomId r) = Some r
                     \<and> filter (\<lambda>u. socketId u = sid) (activeUsers r)
                         = [\<lparr> socketId = sid,
                              username = (case uname of Absent \<Rightarrow> S ''Anonymous'' | _ \<Rightarrow> uname),
                              color = col,
                              pointer = VObj [(''x'', VNum (Fin 0)), (''y'', VNum (Fin 0))],
                              selectedElementIds = [], lastActive = now i \<rparr>]
                     \<and> outbox st' = outbox st @
                         [(ToSocket sid,
                           SceneInit (elements r) (appState r) (files r)
                             (map (\<lambda>u. (socketId u, username u, color u)) (activeUsers r))),
                          (ToOthers rid sid, UserJoined sid uname col)])
             else (outbox st' = outbox st @ [(ToSocket sid, ErrorEv ''Room validation failed'')]
                   \<and> (\<forall>k r. db st' k = Some r \<longrightarrow> presence sid r = 0)))"
proof -
  let ?tn = "to_number e"
  let ?P = "\<lambda>r. valid_room r \<and> presence sid r = 0"
  let ?st4 = "st\<lparr> joined := (joined st)(rid := insert sid (joined st rid)),
                   socketRoomMap := (socketRoomMap st)(sid \<mapsto> rid) \<rparr>"
  have ne: "rid \<noteq> []" using rid by auto
  have rid': "1 \<le> length (j_roomId data)" "length (j_roomId data) \<le> 100"
    using rid by simp_all
  have inv4: "all_docs ?P ?st4" using inv by simp
  from addUser_fresh[OF io ne inv4 sid, of ?tn uname col] obtain st1 r where
    inv1: "all_docs ?P st1" and o: "outbox st1 = outbox st" and P: "valid_room r" "presence sid r = 0"
    and a: "addUser ?tn i rid sid uname col ?st4 =
               (if required_string col
                then (st1\<lparr> activeRooms := (activeRooms st1)(rid \<mapsto> pre_save ?tn (addUser_m i sid uname col r)),
                           db := (db st1)(roomId r \<mapsto> pre_save ?tn (addUser_m i sid uname col r)) \<rparr>,
                      Inr (Some (pre_save ?tn (addUser_m i sid uname col r))))
                else (console ''Error adding user: Room validation failed''
                        (st1\<lparr> activeRooms := (activeRooms st1)(rid \<mapsto> addUser_m i sid uname col r) \<rparr>),
                      Inl (ValidationError ''Room validation failed'')))"
    by auto
  have leave: "handleLeaveRoom e il sid st = st"
    using fresh by (simp add: handleLeaveRoom_def current_room_def)
  let ?st' = "on_join_room e il i sid data st"
  show ?thesis
  proof (cases "required_string col")
    case True
    let ?r2 = "pre_save ?tn (addUser_m i sid uname col r)"
    have st': "?st' = emit (ToOthers rid sid) (UserJoined sid uname col)
               (emit (ToSocket sid)
                  (SceneInit (elements ?r2) (appState ?r2) (files ?r2)
                     (map (\<lambda>u. (socketId u, username u, color u)) (activeUsers ?r2)))
                  (st1\<lparr> activeRooms := (activeRooms st1)(rid \<mapsto> ?r2),
                        db := (db st1)(roomId r \<mapsto> ?r2) \<rparr>))"
      using True
      by (simp add: on_join_room_def validate_roomId_ok[OF rid(2,3)] validate_userJoin leave Let_def
            user rid(1) a)
    have f: "filter (\<lambda>u. socketId u = sid) (activeUsers ?r2) = [new_user i sid uname col]"
      using P(2) by (simp add: addUser_m_fresh presence_def new_user_def)
    have rid2: "roomId ?r2 = roomId r"
      using P(2) by (simp add: addUser_m_fresh)
    show ?thesis
      using True f rid2 o
      by (simp add: Let_def st' new_user_def)
  next
    case False
    have st': "?st' = emit (ToSocket sid) (ErrorEv ''Room validation failed'')
               (console ''Error joining room: Room validation failed''
                  (console ''Error adding user: Room validation failed''
                     (st1\<lparr> activeRooms := (activeRooms st1)(rid \<mapsto> addUser_m i sid uname col r) \<rparr>)))"
      using False
      by (simp add: on_join_room_def validate_roomId_ok[OF rid(2,3)] validate_userJoin leave Let_def
            user rid(1) a message_def)
    have d: "\<And>k r. db st1 k = Some r \<Longrightarrow> presence sid r = 0"
      using inv1 by (auto simp: all_docs_def)
    have "\<forall>k r. db ?st' k = Some r \<longrightarrow> presence sid r = 0"
      by (auto simp: st' d)
    then show ?thesis
      using False o by (simp add: Let_def st')
  qed
qed


theorem join_defaults_witness:
  "socketRoomMap server0 ''s1'' = None \<and> ''s1'' \<noteq> [] \<and> 1 \<le> length ''demo'' \<and> length ''demo'' \<le> 100
   \<and> db_reads io_ok \<and> db_writes io_ok
   \<and> all_docs (\<lambda>r. valid_room r \<and> presence ''s1'' r = 0) server0
   \<and> required_string (S ''#ff0000'')
   \<and> (\<exists>r. activeRooms
              (on_join_room env0 io_ok io_ok ''s1''
                 \<lparr> j_roomId = ''demo'',
                   j_user = Some \<lparr> p_username = Absent, p_color = S ''#ff0000'' \<rparr> \<rparr> server0)
              ''demo'' = Some r
          \<and> db (on_join_room env0 io_ok io_ok ''s1''
                 \<lparr> j_roomId = ''demo'',
                   j_user = Some \<lparr> p_username = Absent, p_color = S ''#ff0000'' \<rparr> \<rparr> server0)
              ''demo'' = Some r
          \<and> map username (activeUsers r) = [S ''Anonymous'']
          \<and> map color (activeUsers r) = [S ''#ff0000''])
   \<and> outbox (on_join_room env0 io_ok io_ok ''s1''
               \<lparr> j_roomId = ''demo'', j_user = Some \<lparr> p_username = Absent, p_color = S ''#ff0000'' \<rparr> \<rparr>
               server0)
       = [(ToSocket ''s1'',
           SceneInit [] (Some [(''viewBackgroundColor'', VStr ''#ffffff''), (''scrollX'', VNum (Fin 0)),
                               (''scrollY'', VNum (Fin 0)), (''zoom'', VObj [(''value'', VNum (Fin 1))])])
             [] [(''s1'', S ''Anonymous'', S ''#ff0000'')]),
          (ToOthers ''demo'' ''s1'', UserJoined ''s1'' Absent (S ''#ff0000''))]
   \<and> \<not> required_string NullS
   \<and> outbox (on_join_room env0 io_ok io_ok ''s1''
               \<lparr> j_roomId = ''demo'', j_user = Some \<lparr> p_username = S ''ann'', p_color = NullS \<rparr> \<rparr>
               server0)
       = [(ToSocket ''s1'', ErrorEv ''Room validation failed'')]
   \<and> map_option (presence ''s1'')
        (db (on_join_room env0 io_ok io_ok ''s1''
               \<lparr> j_roomId = ''demo'', j_user = Some \<lparr> p_username = S ''ann'', p_color = NullS \<rparr> \<rparr>
               server0) ''demo'') = Some 0"
proof -
  let ?d = "\<lparr> j_roomId = ''demo'', j_user = Some \<lparr> p_username = Absent, p_color = S ''#ff0000'' \<rparr> \<rparr>"
  let ?n = "\<lparr> j_roomId = ''demo'', j_user = Some \<lparr> p_username = S ''ann'', p_color = NullS \<rparr> \<rparr>"
  have h1: "socketRoomMap server0 ''s1'' = None" "''s1'' \<noteq> []"
    "1 \<le> length ''demo''" "length ''demo'' \<le> 100" "db_reads io_ok" "db_writes io_ok"
    by (simp_all add: server0_def io_ok_def)
  have h2: "all_docs (\<lambda>r. valid_room r \<and> presence ''s1'' r = 0) server0"
    by (simp add: all_docs_def server0_def)
  have h3: "required_string (S ''#ff0000'')" "\<not> required_string NullS"
    by (simp_all add: required_string_def)
  have h4: "j_roomId ?d = ''demo''"
    "(case j_user ?d of None \<Rightarrow> \<lparr> p_username = Absent, p_color = Absent \<rparr> | Some u \<Rightarrow> u)
       = \<lparr> p_username = Absent, p_color = S ''#ff0000'' \<rparr>"
    by simp_all
  have h5: "j_roomId ?n = ''demo''"
    "(case j_user ?n of None \<Rightarrow> \<lparr> p_username = Absent, p_color = Absent \<rparr> | Some u \<Rightarrow> u)
       = \<lparr> p_username = S ''ann'', p_color = NullS \<rparr>"
    by simp_all
  have o: "outbox server0 = []" by (simp add: server0_def)
  have ok: "\<exists>r. activeRooms (on_join_room env0 io_ok io_ok ''s1'' ?d server0) ''demo'' = Some r
          \<and> db (on_join_room env0 io_ok io_ok ''s1'' ?d server0) ''demo'' = Some r
          \<and> map username (activeUsers r) = [S ''Anonymous'']
          \<and> map color (activeUsers r) = [S ''#ff0000'']"
    by (simp add: handler_defs eval_defs Let_def)
  have w2: "outbox (on_join_room env0 io_ok io_ok ''s1'' ?d server0)
       = [(ToSocket ''s1'',
           SceneInit [] (Some [(''viewBackgroundColor'', VStr ''#ffffff''), (''scrollX'', VNum (Fin 0)),
                               (''scrollY'', VNum (Fin 0)), (''zoom'', VObj [(''value'', VNum (Fin 1))])])
             [] [(''s1'', S ''Anonymous'', S ''#ff0000'')]),
          (ToOthers ''demo'' ''s1'', UserJoined ''s1'' Absent (S ''#ff0000''))]"
    by (simp add: handler_defs eval_defs sanitizer_defs Let_def)
  have w3: "map_option (presence ''s1'')
        (db (on_join_room env0 io_ok io_ok ''s1'' ?n server0) ''demo'') = Some 0"
    by (simp add: handler_defs eval_defs presence_def Let_def)
  have w4: "outbox (on_join_room env0 io_ok io_ok ''s1'' ?n server0)
       = [(ToSocket ''s1'', ErrorEv ''Room validation failed'')]"
    using join_defaults[OF h1(1,2) h5(1) h1(3,4) h5(2) h1(5,6) h2, of env0 io_ok] h3(2) o
    by (simp add: Let_def)
  show ?thesis
    using join_defaults[OF h1(1,2) h4(1) h1(3,4) h4(2) h1(5,6) h2, of env0 io_ok] h1 h2 h3 ok w2 w3 w4
    by simp
qed

text \<open>
  C8 as stated fails. A join of the room \<open>demo\<close> with no user payload is answered with
  an error and stores no presence entry, and the entry left in the cache has no color;
  the same error answers an empty color; and an empty username is stored empty, not as
  \<open>Anonymous\<close>.
\<close>

theorem join_default_color_counterexample:
  "outbox (on_join_room env0 io_ok io_ok ''s1'' \<lparr> j_roomId = ''demo'', j_user = None \<rparr> server0)
     = [(ToSocket ''s1'', ErrorEv ''Room validation failed'')]
   \<and> map_option activeUsers
        (db (on_join_room env0 io_ok io_ok ''s1'' \<lparr> j_roomId = ''demo'', j_user = None \<rparr> server0)
           ''demo'') = Some []
   \<and> map_option (map color \<circ> activeUsers)
        (activeRooms
           (on_join_room env0 io_ok io_ok ''s1'' \<lparr> j_roomId = ''demo'', j_user = None \<rparr> server0)
           ''demo'') = Some [Absent]
   \<and> outbox (on_join_room env0 io_ok io_ok ''s1''
               \<lparr> j_roomId = ''demo'', j_user = Some \<lparr> p_username = S ''ann'', p_color = S [] \<rparr> \<rparr>
               server0)
     = [(ToSocket ''s1'', ErrorEv ''Room validation failed'')]
   \<and> map_option (map username \<circ> activeUsers)
        (db (on_join_room env0 io_ok io_ok ''s1''
               \<lparr> j_roomId = ''demo'', j_user = Some \<lparr> p_username = S [], p_color = S ''#ff0000'' \<rparr> \<rparr>
               server0) ''demo'') = Some [S []]"
  by (simp add: handler_defs eval_defs Let_def)



subsection \<open>Incremental updates\<close>

text \<open>
  What the method does, in full: the elements whose id is in \<open>deleted\<close> are removed;
  then, when an entry of \<open>updated\<close> has the id of an element that is left, the method
  throws at that entry, having merged nothing, appended nothing and not touched the
  version; otherwise the elements of \<open>added\<close> are appended and the version is
  incremented once.
\<close>

lemma findIndex_None: "(findIndex P xs = None) = (\<forall>x \<in> set xs. \<not> P x)"
  by (induction xs) auto

lemma findIndex_Some: "findIndex P xs = Some n \<Longrightarrow> n < length xs \<and> P (xs ! n)"
  by (induction xs arbitrary: n) (auto split: if_splits)

lemma apply_update_cases:
  "apply_update els u =
     (if list_ex (\<lambda>el. strict_eq (get_prop el ''id'') (get_prop u ''id'')) els
      then (els, Some (TypeError ''this.elements[index].toObject is not a function''))
      else (els, None))"
  using findIndex_None[of "\<lambda>el. strict_eq (get_prop el ''id'') (get_prop u ''id'')" els]
  by (auto simp: apply_update_def toObject_def list_ex_iff split: option.splits)

lemma forEach_update_cases:
  "forEach_update els us =
     (if list_ex (\<lambda>u. list_ex (\<lambda>el. strict_eq (get_prop el ''id'') (get_prop u ''id'')) els) us
      then (els, Some (TypeError ''this.elements[index].toObject is not a function''))
      else (els, None))"
  by (induction us) (simp_all add: apply_update_cases)

lemma apply_deleted_filter:
  "apply_deleted d els =
     filter (\<lambda>el. \<not> js_includes (case d of None \<Rightarrow> [] | Some ids \<Rightarrow> ids) (get_prop el ''id'')) els"
  by (cases d) (auto simp: apply_deleted_def js_includes_def)

lemma apply_added_append:
  "apply_added a els = els @ (case a of None \<Rightarrow> [] | Some as \<Rightarrow> as)"
  by (cases a) (auto simp: apply_added_def)

lemma incrementalUpdate_m_cases:
  "incrementalUpdate_m i updates r =
     (let ids = (case deleted updates of None \<Rightarrow> [] | Some ids \<Rightarrow> ids);
          us = (case updated updates of None \<Rightarrow> [] | Some us \<Rightarrow> us);
          as = (case added updates of None \<Rightarrow> [] | Some as \<Rightarrow> as);
          kept = filter (\<lambda>el. \<not> js_includes ids (get_prop el ''id'')) (elements r)
      in if list_ex (\<lambda>u. list_ex (\<lambda>el. strict_eq (get_prop el ''id'') (get_prop u ''id'')) kept) us
         then (r\<lparr> elements := kept \<rparr>,
               Some (TypeError ''this.elements[index].toObject is not a function''))
         else (r\<lparr> elements := kept @ as, version := plus_one (version r), lastModified := now i \<rparr>, None))"
  by (cases "updated updates")
     (auto simp: incrementalUpdate_m_def apply_updated_def forEach_update_cases apply_deleted_filter
        apply_added_append Let_def)

text \<open>
  The two examples of the specification that have no matching update: an update whose
  id no element has changes no element and is no error, and an element added by one
  delta and deleted by the next is gone.
\<close>

lemma incrementalUpdate_unmatched_is_noop:
  assumes "\<forall>el \<in> set (elements r). \<not> strict_eq (get_prop el ''id'') (get_prop u ''id'')"
  shows "incrementalUpdate_m i \<lparr> added = None, updated = Some [u], deleted = None \<rparr> r
           = (r\<lparr> version := plus_one (version r), lastModified := now i \<rparr>, None)"
  using assms by (auto simp: incrementalUpdate_m_cases js_includes_def list_ex_iff Let_def)

lemma incrementalUpdate_add_then_delete:
  assumes "get_prop e1 ''id'' = VStr s"
  shows "\<exists>r1 r2. incrementalUpdate_m i \<lparr> added = Some [e1], updated = None, deleted = None \<rparr> r = (r1, None)
           \<and> incrementalUpdate_m i' \<lparr> added = None, updated = None, deleted = Some [VStr s] \<rparr> r1 = (r2, None)
           \<and> e1 \<in> set (elements r1) \<and> e1 \<notin> set (elements r2)
           \<and> (\<forall>el \<in> set (elements r2). get_prop el ''id'' \<noteq> VStr s)
           \<and> version r2 = plus_one (plus_one (version r))"
  using assms
  by (auto simp: incrementalUpdate_m_cases js_includes_def same_value_zero_def strict_eq_def Let_def)

lemmas incremental_defs = incrementalUpdate_m_def apply_deleted_def apply_updated_def apply_update_def
  apply_added_def toObject_def strict_eq_def same_value_zero_def js_includes_def get_prop_def
  demo_room_e1_def demo_server_e1_def on_incremental_update_def

text \<open>
  C1 at a delta that updates an existing element. The room holds the element \<open>e1\<close> at
  version 1. The delta updates \<open>x\<close> of \<open>e1\<close> and adds \<open>e2\<close>. The method throws
  the TypeError of \<open>toObject\<close>: the sender gets an \<open>error\<close> event, and the room, cached
  and stored, still has \<open>e1\<close> with its old \<open>x\<close>, no \<open>e2\<close>, and version 1.
\<close>

theorem incrementalUpdate_matching_update_throws:
  "incrementalUpdate_m io_ok
     \<lparr> added = Some [[(''id'', VStr ''e2'')]],
       updated = Some [[(''id'', VStr ''e1''), (''x'', VNum (Fin 99))]],
       deleted = None \<rparr> demo_room_e1
     = (demo_room_e1, Some (TypeError ''this.elements[index].toObject is not a function''))
   \<and> outbox (on_incremental_update env0 io_ok ''s1''
        \<lparr> added = Some [[(''id'', VStr ''e2'')]],
          updated = Some [[(''id'', VStr ''e1''), (''x'', VNum (Fin 99))]],
          deleted = None \<rparr> demo_server_e1)
     = [(ToSocket ''s1'', ErrorEv ''this.elements[index].toObject is not a function'')]
   \<and> activeRooms (on_incremental_update env0 io_ok ''s1''
        \<lparr> added = Some [[(''id'', VStr ''e2'')]],
          updated = Some [[(''id'', VStr ''e1''), (''x'', VNum (Fin 99))]],
          deleted = None \<rparr> demo_server_e1) ''demo''
     = Some demo_room_e1
   \<and> db (on_incremental_update env0 io_ok ''s1''
        \<lparr> added = Some [[(''id'', VStr ''e2'')]],
          updated = Some [[(''id'', VStr ''e1''), (''x'', VNum (Fin 99))]],
          deleted = None \<rparr> demo_server_e1) ''demo''
     = Some demo_room_e1
   \<and> version demo_room_e1 = 1
   \<and> elements demo_room_e1 = [[(''id'', VStr ''e1''), (''x'', VNum (Fin 1))]]"
  by (simp add: incremental_defs handler_defs eval_defs Let_def)



subsection \<open>The relay of a full scene\<close>

text \<open>
  When the sanitization of the handler returns, the scene is relayed whatever the room
  holds and whatever the store answers: the only event emitted is the broadcast of the
  sanitized payload to the other connections of the group, and a failure of the update
  that follows adds a line to the log and nothing else.
\<close>

lemma mutate_and_save_frame:
  "outbox (fst (mutate_and_save tn i rid body r st)) = outbox st"
  "socketRoomMap (fst (mutate_and_save tn i rid body r st)) = socketRoomMap st"
  "joined (fst (mutate_and_save tn i rid body r st)) = joined st"
  by (cases rule: mutate_and_save_cases[of body r tn i rid st]; simp)+

lemma createRoom_frame:
  "outbox (fst (createRoom tn i ro st)) = outbox st"
  "socketRoomMap (fst (createRoom tn i ro st)) = socketRoomMap st"
  "joined (fst (createRoom tn i ro st)) = joined st"
  by (simp_all add: createRoom_def Let_def split: prod.splits option.splits)

lemma getRoom_frame:
  "outbox (fst (getRoom tn i rid c st)) = outbox st"
  "socketRoomMap (fst (getRoom tn i rid c st)) = socketRoomMap st"
  "joined (fst (getRoom tn i rid c st)) = joined st"
  using createRoom_frame[of tn i "Some rid" st]
  by (auto simp: getRoom_def split: prod.splits option.splits sum.splits)

lemma with_room_frame:
  "outbox (fst (with_room tn i rid c missing body st)) = outbox st"
  "socketRoomMap (fst (with_room tn i rid c missing body st)) = socketRoomMap st"
  "joined (fst (with_room tn i rid c missing body st)) = joined st"
proof -
  obtain st1 res where g: "getRoom tn i rid c st = (st1, res)" by (cases "getRoom tn i rid c st")
  from getRoom_frame[of tn i rid c st] g
  have f: "outbox st1 = outbox st" "socketRoomMap st1 = socketRoomMap st" "joined st1 = joined st"
    by simp_all
  show "outbox (fst (with_room tn i rid c missing body st)) = outbox st"
    "socketRoomMap (fst (with_room tn i rid c missing body st)) = socketRoomMap st"
    "joined (fst (with_room tn i rid c missing body st)) = joined st"
    using f mutate_and_save_frame[of tn i rid body _ st1]
    by (auto simp: with_room_def g split: sum.splits option.splits prod.splits
          dest!: arg_cong[where f=fst])
qed

lemma updateRoomElements_frame:
  "outbox (fst (updateRoomElements tn i rid els a f st)) = outbox st"
  "socketRoomMap (fst (updateRoomElements tn i rid els a f st)) = socketRoomMap st"
  "joined (fst (updateRoomElements tn i rid els a f st)) = joined st"
  by (simp_all add: updateRoomElements_def with_room_frame)

lemma scene_update_relay:
  assumes room: "current_room st sid = Some rid"
    and v: "validate (sceneUpdateSchema e) data st = (st1, v)"
    and san: "sanitize_scene (to_number e) v = Inr v'"
  shows "outbox (on_scene_update e i sid data st) = outbox st @ [(ToOthers rid sid, SceneUpdateEv v')]"
    and "recipients (on_scene_update e i sid data st) (ToOthers rid sid) = joined st rid - {sid}"
    and "on_scene_update e i sid data st =
           (case updateRoomElements (to_number e) i rid (m_elements v') (m_appState v') (m_files v')
                   (emit (ToOthers rid sid) (SceneUpdateEv v') st1) of
              (st2, Inl err) \<Rightarrow> console (''db save error: '' @ message err) st2
            | (st2, Inr x) \<Rightarrow> st2)"
proof -
  let ?st1' = "emit (ToOthers rid sid) (SceneUpdateEv v') st1"
  obtain st2 res where u: "updateRoomElements (to_number e) i rid (m_elements v') (m_appState v') (m_files v') ?st1' = (st2, res)"
    by (cases "updateRoomElements (to_number e) i rid (m_elements v') (m_appState v') (m_files v') ?st1'")
  from updateRoomElements_frame[of "to_number e" i rid "m_elements v'" "m_appState v'" "m_files v'" ?st1'] u
  have f: "outbox st2 = outbox ?st1'" "joined st2 = joined ?st1'" by simp_all
  have eq: "on_scene_update e i sid data st =
      (case res of Inl err \<Rightarrow> console (''db save error: '' @ message err) st2 | Inr x \<Rightarrow> st2)"
    by (simp add: on_scene_update_def room v san u split: sum.splits)
  show "outbox (on_scene_update e i sid data st) = outbox st @ [(ToOthers rid sid, SceneUpdateEv v')]"
    using f validate_fields(5)[OF v] by (cases res) (simp_all add: eq)
  show "recipients (on_scene_update e i sid data st) (ToOthers rid sid) = joined st rid - {sid}"
    using f validate_fields(4)[OF v] by (cases res) (simp_all add: eq recipients_def)
  show "on_scene_update e i sid data st =
           (case updateRoomElements (to_number e) i rid (m_elements v') (m_appState v') (m_files v')
                   (emit (ToOthers rid sid) (SceneUpdateEv v') st1) of
              (st2, Inl err) \<Rightarrow> console (''db save error: '' @ message err) st2
            | (st2, Inr x) \<Rightarrow> st2)"
    by (cases res) (simp_all add: eq u)
qed

text \<open>
  C2 at a scene whose zoom is null, which \<open>appStateSchema\<close> allows. The connection
  \<open>s1\<close> is in the room \<open>demo\<close> with \<open>s2\<close>. The handler reads \<open>rawZoom.value\<close> of
  null and throws: the sender gets an \<open>error\<close> event, nothing is broadcast and nothing
  is stored. The pre-save hook, on the same appState, gives the zoom 1.
\<close>

theorem scene_update_null_zoom_not_broadcast:
  "on_scene_update env0 io_ok ''s1''
     \<lparr> m_elements = [], m_appState = Some [(''zoom'', VNull)], m_files = None \<rparr> demo_server
   = demo_server
       \<lparr> outbox := [(ToSocket ''s1'', ErrorEv ''Cannot read properties of null (reading 'value')'')],
         logs := [''scene-update error: Cannot read properties of null (reading 'value')''] \<rparr>
   \<and> pre_save_zoom (\<lambda>_. NaN) [(''zoom'', VNull)] = VNum (Fin 1)"
  by (simp add: on_scene_update_def sanitize_scene_def sanitize_appState_def zoom_value_def
        get_prop_def validate_def env0_def current_room_def demo_server_def server0_def emit_def
        console_def message_def pre_save_zoom_def truthy_def)


end
